theory Spec2Isabelle
  imports Main "HOL-Library.Sublist"
begin

section \<open>Strings\<close>

text \<open>
  A JavaScript string is a sequence of UTF-16 code units. The model keeps the code units
  below 256 (ASCII and Latin-1), one \<^typ>\<open>char\<close> each, so \<^const>\<open>length\<close> is the
  \<^verbatim>\<open>.length\<close> of the source on those texts. Every pattern and literal of the source is
  ASCII.
\<close>

definition code :: "char \<Rightarrow> nat" where
  "code c = of_char c"

text \<open>\<^verbatim>\<open>String.prototype.toLowerCase\<close>: A-Z and the Latin-1 capitals (all of C0-DE but the
  multiplication sign D7) move up by 32; every other code unit below 256 is unchanged.\<close>

definition lower_char :: "char \<Rightarrow> char" where
  "lower_char c =
     (let n = code c in
      if (65 \<le> n \<and> n \<le> 90) \<or> (192 \<le> n \<and> n \<le> 222 \<and> n \<noteq> 215)
      then char_of (n + 32) else c)"

definition toLowerCase :: "string \<Rightarrow> string" where
  "toLowerCase s = map lower_char s"

text \<open>\<^verbatim>\<open>s.includes(t)\<close> and \<^verbatim>\<open>s.endsWith(t)\<close>.\<close>

definition includes_str :: "string \<Rightarrow> string \<Rightarrow> bool" where
  "includes_str s t = sublist t s"

definition endsWith :: "string \<Rightarrow> string \<Rightarrow> bool" where
  "endsWith s t = suffix t s"

text \<open>\<^verbatim>\<open>xs.join(sep)\<close> on an array of strings.\<close>

fun join :: "string \<Rightarrow> string list \<Rightarrow> string" where
  "join sep [] = []"
| "join sep [x] = x"
| "join sep (x # y # ys) = x @ sep @ join sep (y # ys)"

text \<open>\<^verbatim>\<open>String.prototype.trim\<close> strips white space and line terminators at both ends: tab,
  line feed, vertical tab, form feed, carriage return, space and no-break space are the ones
  below 256. The class \<^verbatim>\<open>\s\<close> of a pattern is the same set.\<close>

definition isWhiteSpace :: "char \<Rightarrow> bool" where
  "isWhiteSpace c = (code c \<in> {9, 10, 11, 12, 13, 32, 160})"

definition trim :: "string \<Rightarrow> string" where
  "trim s = rev (dropWhile isWhiteSpace (rev (dropWhile isWhiteSpace s)))"

text \<open>A non-negative integer in a template literal.\<close>

fun digitsOf :: "nat \<Rightarrow> nat \<Rightarrow> string" where
  "digitsOf 0 n = []"
| "digitsOf (Suc fuel) n =
     (if n < 10 then [char_of (48 + n)]
      else digitsOf fuel (n div 10) @ [char_of (48 + n mod 10)])"

definition showNat :: "nat \<Rightarrow> string" where
  "showNat n = digitsOf (Suc n) n"

text \<open>\<^verbatim>\<open>[...new Set(xs)]\<close>: the elements of \<open>xs\<close> in the order of their first occurrence.\<close>

fun uniqueFrom :: "'a list \<Rightarrow> 'a list \<Rightarrow> 'a list" where
  "uniqueFrom seen [] = []"
| "uniqueFrom seen (x # xs) =
     (if x \<in> set seen then uniqueFrom seen xs else x # uniqueFrom (x # seen) xs)"

definition newSet :: "'a list \<Rightarrow> 'a list" where
  "newSet xs = uniqueFrom [] xs"

section \<open>Regular expressions\<close>

text \<open>
  The patterns of the source use single characters, the classes \<^verbatim>\<open>\d\<close>, \<^verbatim>\<open>\s\<close>, \<^verbatim>\<open>\w\<close> and
  \<^verbatim>\<open>.\<close>, bracket classes and their negation, sequence, alternation, the quantifiers
  \<^verbatim>\<open>*\<close>, \<^verbatim>\<open>+\<close>, \<^verbatim>\<open>?\<close> and the lazy \<^verbatim>\<open>*?\<close>, and the assertion \<^verbatim>\<open>\b\<close>. Groups capture
  nothing that the source reads, so they are left out.
\<close>

datatype atom = Ch char | Digit | Space | WordCh | Dot

datatype regex =
    Atom atom
  | OneOf "atom list"
  | NoneOf "atom list"
  | Eps
  | Cat regex regex
  | Alt regex regex
  | Star regex
  | LazyStar regex
  | WordB

definition Plus :: "regex \<Rightarrow> regex" where
  "Plus r = Cat r (Star r)"

definition Opt :: "regex \<Rightarrow> regex" where
  "Opt r = Alt r Eps"

fun Str :: "string \<Rightarrow> regex" where
  "Str [] = Eps"
| "Str [c] = Atom (Ch c)"
| "Str (c # d # cs) = Cat (Atom (Ch c)) (Str (d # cs))"

fun Seq :: "regex list \<Rightarrow> regex" where
  "Seq [] = Eps"
| "Seq [r] = r"
| "Seq (r # q # rs) = Cat r (Seq (q # rs))"

text \<open>An alternation of at least one branch; the alternation of no branch, which the source
  never writes, is a class that no code unit is in.\<close>

fun Alts :: "regex list \<Rightarrow> regex" where
  "Alts [] = NoneOf [Dot, Ch (CHR 0x0A), Ch (CHR 0x0D)]"
| "Alts [r] = r"
| "Alts (r # q # rs) = Alt r (Alts (q # rs))"

definition isDigit :: "char \<Rightarrow> bool" where
  "isDigit c = (48 \<le> code c \<and> code c \<le> 57)"

definition isWordChar :: "char \<Rightarrow> bool" where
  "isWordChar c =
     (let n = code c in (48 \<le> n \<and> n \<le> 57) \<or> (65 \<le> n \<and> n \<le> 90) \<or> n = 95 \<or> (97 \<le> n \<and> n \<le> 122))"

definition isLineTerminator :: "char \<Rightarrow> bool" where
  "isLineTerminator c = (code c = 10 \<or> code c = 13)"

text \<open>Under the flag \<^verbatim>\<open>i\<close> two code units match when their canonical forms are equal; the
  canonical form is the upper case, and below 256 it moves a-z and the Latin-1 small letters
  (E0-FE but the division sign F7) down by 32. The upper cases of B5 and FF lie above 255 and
  are the upper case of no other code unit below 256, so these two stay as they are.\<close>

definition canonicalize :: "bool \<Rightarrow> char \<Rightarrow> char" where
  "canonicalize ignoreCase c =
     (let n = code c in
      if ignoreCase \<and> ((97 \<le> n \<and> n \<le> 122) \<or> (224 \<le> n \<and> n \<le> 254 \<and> n \<noteq> 247))
      then char_of (n - 32) else c)"

fun atomMatches :: "bool \<Rightarrow> atom \<Rightarrow> char \<Rightarrow> bool" where
  "atomMatches ignoreCase (Ch d) c = (canonicalize ignoreCase d = canonicalize ignoreCase c)"
| "atomMatches ignoreCase Digit c = isDigit c"
| "atomMatches ignoreCase Space c = isWhiteSpace c"
| "atomMatches ignoreCase WordCh c = isWordChar c"
| "atomMatches ignoreCase Dot c = (\<not> isLineTerminator c)"

text \<open>A position in the subject string: the code unit before it, if any, and the text from
  it on. That is all a pattern of this kind can look at.\<close>

type_synonym cursor = "char option \<times> string"

fun consume :: "(char \<Rightarrow> bool) \<Rightarrow> cursor \<Rightarrow> cursor list" where
  "consume accepts (before, []) = []"
| "consume accepts (before, c # cs) = (if accepts c then [(Some c, cs)] else [])"

fun atWordBoundary :: "cursor \<Rightarrow> bool" where
  "atWordBoundary (before, rest) =
     ((case before of None \<Rightarrow> False | Some c \<Rightarrow> isWordChar c)
      \<noteq> (case rest of [] \<Rightarrow> False | c # cs \<Rightarrow> isWordChar c))"

text \<open>
  The backtracking matcher of the language, as the list of the positions where a match of
  the pattern that starts at the cursor can end, in the order in which backtracking tries
  them: the head is the end of the match the engine reports. A greedy star tries one more
  round before stopping, a lazy one stops before trying one more round, and a round that
  consumes nothing is dropped, as the language has it. The fuel is the length of the rest of
  the text, which bounds the number of rounds that consume something.
\<close>

fun rounds :: "bool \<Rightarrow> (cursor \<Rightarrow> cursor list) \<Rightarrow> nat \<Rightarrow> cursor \<Rightarrow> cursor list" where
  "rounds greedy step 0 cur = [cur]"
| "rounds greedy step (Suc fuel) cur =
     (let more = concat (map (rounds greedy step fuel)
                   (filter (\<lambda>nxt. length (snd nxt) < length (snd cur)) (step cur)))
      in if greedy then more @ [cur] else cur # more)"

primrec ends :: "regex \<Rightarrow> bool \<Rightarrow> cursor \<Rightarrow> cursor list" where
  "ends (Atom a) = (\<lambda>ignoreCase cur. consume (atomMatches ignoreCase a) cur)"
| "ends (OneOf as) = (\<lambda>ignoreCase cur. consume (\<lambda>c. list_ex (\<lambda>a. atomMatches ignoreCase a c) as) cur)"
| "ends (NoneOf as) = (\<lambda>ignoreCase cur. consume (\<lambda>c. \<not> list_ex (\<lambda>a. atomMatches ignoreCase a c) as) cur)"
| "ends Eps = (\<lambda>ignoreCase cur. [cur])"
| "ends (Cat r q) = (\<lambda>ignoreCase cur. concat (map (ends q ignoreCase) (ends r ignoreCase cur)))"
| "ends (Alt r q) = (\<lambda>ignoreCase cur. ends r ignoreCase cur @ ends q ignoreCase cur)"
| "ends (Star r) = (\<lambda>ignoreCase cur. rounds True (ends r ignoreCase) (length (snd cur)) cur)"
| "ends (LazyStar r) = (\<lambda>ignoreCase cur. rounds False (ends r ignoreCase) (length (snd cur)) cur)"
| "ends WordB = (\<lambda>ignoreCase cur. if atWordBoundary cur then [cur] else [])"

text \<open>\<^verbatim>\<open>RegExp.prototype.exec\<close> from a cursor on: the leftmost position at which the pattern
  matches, with the end the matcher reports there.\<close>

fun exec :: "regex \<Rightarrow> bool \<Rightarrow> cursor \<Rightarrow> (cursor \<times> cursor) option" where
  "exec r ignoreCase (before, []) =
     (case ends r ignoreCase (before, []) of [] \<Rightarrow> None | e # es \<Rightarrow> Some ((before, []), e))"
| "exec r ignoreCase (before, c # cs) =
     (case ends r ignoreCase (before, c # cs) of
        [] \<Rightarrow> exec r ignoreCase (Some c, cs)
      | e # es \<Rightarrow> Some ((before, c # cs), e))"

definition matched :: "cursor \<Rightarrow> cursor \<Rightarrow> string" where
  "matched start end = take (length (snd start) - length (snd end)) (snd start)"

text \<open>\<^verbatim>\<open>pattern.test(s)\<close>. Every pattern object of the source is created where it is used,
  so its \<^verbatim>\<open>lastIndex\<close> is 0 and the flag \<^verbatim>\<open>g\<close> changes nothing in a test.\<close>

definition test :: "regex \<Rightarrow> bool \<Rightarrow> string \<Rightarrow> bool" where
  "test r ignoreCase s = (exec r ignoreCase (None, s) \<noteq> None)"

text \<open>\<^verbatim>\<open>s.match(pattern)\<close> with the flag \<^verbatim>\<open>g\<close>: the matched texts from left to right, each
  search starting where the previous match ended, one code unit further after an empty
  match; \<open>None\<close> is the \<^verbatim>\<open>null\<close> of no match at all. The fuel exceeds the length of the
  rest of the text, and every step but the last shortens the rest.\<close>

fun matchesFrom :: "nat \<Rightarrow> regex \<Rightarrow> bool \<Rightarrow> cursor \<Rightarrow> string list" where
  "matchesFrom 0 r ignoreCase cur = []"
| "matchesFrom (Suc fuel) r ignoreCase cur =
     (case exec r ignoreCase cur of
        None \<Rightarrow> []
      | Some (start, end) \<Rightarrow>
          matched start end #
          (if matched start end = []
           then (case end of
                   (before, []) \<Rightarrow> []
                 | (before, c # cs) \<Rightarrow> matchesFrom fuel r ignoreCase (Some c, cs))
           else matchesFrom fuel r ignoreCase end))"

definition matchGlobal :: "regex \<Rightarrow> bool \<Rightarrow> string \<Rightarrow> string list option" where
  "matchGlobal r ignoreCase s =
     (case matchesFrom (Suc (length s)) r ignoreCase (None, s) of
        [] \<Rightarrow> None
      | m # ms \<Rightarrow> Some (m # ms))"

text \<open>\<^verbatim>\<open>s.replace(pattern, replacement)\<close> with the flag \<^verbatim>\<open>g\<close> and a replacement free of
  \<^verbatim>\<open>$\<close>: the same walk, with the text between the matches kept.\<close>

fun replaceFrom :: "nat \<Rightarrow> regex \<Rightarrow> bool \<Rightarrow> string \<Rightarrow> cursor \<Rightarrow> string" where
  "replaceFrom 0 r ignoreCase replacement cur = snd cur"
| "replaceFrom (Suc fuel) r ignoreCase replacement cur =
     (case exec r ignoreCase cur of
        None \<Rightarrow> snd cur
      | Some (start, end) \<Rightarrow>
          take (length (snd cur) - length (snd start)) (snd cur) @ replacement @
          (if matched start end = []
           then (case end of
                   (before, []) \<Rightarrow> []
                 | (before, c # cs) \<Rightarrow> c # replaceFrom fuel r ignoreCase replacement (Some c, cs))
           else replaceFrom fuel r ignoreCase replacement end))"

definition replaceAll :: "regex \<Rightarrow> bool \<Rightarrow> string \<Rightarrow> string \<Rightarrow> string" where
  "replaceAll r ignoreCase replacement s =
     replaceFrom (Suc (length s)) r ignoreCase replacement (None, s)"

section \<open>The network\<close>

text \<open>
  A parsed JSON value. A number is kept as what this code can observe of it: whether it is
  different from zero, and the string it converts to. The fields of an object are in the
  order of the text; when a key occurs twice the later one counts.
\<close>

datatype json =
    JNull
  | JBool bool
  | JNum bool string
  | JStr string
  | JArr "json list"
  | JObj "(string \<times> json) list"

text \<open>Truthiness, \<^verbatim>\<open>value.key\<close> on a value other than \<^verbatim>\<open>null\<close> (\<open>None\<close> is
  \<^verbatim>\<open>undefined\<close>), and the conversion to a string.\<close>

fun truthy :: "json \<Rightarrow> bool" where
  "truthy JNull = False"
| "truthy (JBool b) = b"
| "truthy (JNum nonzero shown) = nonzero"
| "truthy (JStr s) = (s \<noteq> [])"
| "truthy (JArr xs) = True"
| "truthy (JObj fields) = True"

fun property :: "json \<Rightarrow> string \<Rightarrow> json option" where
  "property (JObj fields) key = map_of (rev fields) key"
| "property v key = None"

fun toString :: "json \<Rightarrow> string" where
  "toString JNull = ''null''"
| "toString (JBool b) = (if b then ''true'' else ''false'')"
| "toString (JNum nonzero shown) = shown"
| "toString (JStr s) = s"
| "toString (JArr xs) = join '','' (map (\<lambda>x. if x = JNull then [] else toString x) xs)"
| "toString (JObj fields) = ''[object Object]''"

text \<open>
  A request is its URL and the JSON value of its body. \<^verbatim>\<open>fetch\<close> either rejects, with
  the message of the error, or resolves to a response: a status and a body, on which
  \<^verbatim>\<open>json()\<close> either rejects (\<open>Inl\<close>, with the message) or gives the parsed value.
\<close>

record Request =
  url :: string
  payload :: json

datatype fetched = Rejected string | Responded nat "string + json"

definition ok :: "nat \<Rightarrow> bool" where
  "ok status = (200 \<le> status \<and> status \<le> 299)"

text \<open>What a run does to the outside, in order: the requests it issues and the delays it
  waits for, in milliseconds. The network answers a request as a function of everything
  that happened before it.\<close>

datatype event = Fetch Request | Sleep nat

type_synonym network = "event list \<Rightarrow> Request \<Rightarrow> fetched"

fun isFetch :: "event \<Rightarrow> bool" where
  "isFetch (Fetch req) = True"
| "isFetch (Sleep ms) = False"

text \<open>An exception, as the message it carries.\<close>

datatype error = Error string

section \<open>The prediction client\<close>

definition API_BASE_URL :: string where
  "API_BASE_URL = ''https://resume-screener-v3kw.onrender.com''"

definition cleanText :: "string \<Rightarrow> string" where
  "cleanText t = trim (replaceAll (Plus (Atom Space)) False '' '' t)"

text \<open>The \<^verbatim>\<open>catch\<close> of \<^verbatim>\<open>predictFromText\<close> wraps whatever was thrown in its body.\<close>

definition predictionFailed :: "string \<Rightarrow> error" where
  "predictionFailed m = Error (''Text prediction failed: '' @ m)"

definition predictFromText :: "network \<Rightarrow> string \<Rightarrow> event list \<Rightarrow> (error + json) \<times> event list" where
  "predictFromText net t hist =
     (let cleanedText = cleanText t
      in if length cleanedText < 50
         then (Inl (predictionFailed ''Please provide at least 50 characters of resume text.''), hist)
         else
           (let req = \<lparr>url = API_BASE_URL @ ''/predict-text'',
                       payload = JObj [(''text'', JStr cleanedText)]\<rparr>;
                hist1 = hist @ [Fetch req]
            in case net hist req of
                 Rejected m \<Rightarrow> (Inl (predictionFailed m), hist1)
               | Responded status body \<Rightarrow>
                   if \<not> ok status
                   then
                     (let errorMessage = ''HTTP '' @ showNat status @ '': Text prediction failed'';
                          thrown =
                            (case body of
                               Inl m \<Rightarrow> errorMessage
                             | Inr JNull \<Rightarrow> errorMessage
                             | Inr errorData \<Rightarrow>
                                 (case property errorData ''detail'' of
                                    None \<Rightarrow> errorMessage
                                  | Some detail \<Rightarrow>
                                      if truthy detail then toString detail else errorMessage))
                      in (Inl (predictionFailed thrown), hist1))
                   else
                     (case body of
                        Inl m \<Rightarrow> (Inl (predictionFailed m), hist1)
                      | Inr v \<Rightarrow> (Inr v, hist1))))"

section \<open>The inference client\<close>

definition maxRetries :: nat where
  "maxRetries = 2"

definition hfRequest :: "string \<Rightarrow> string \<Rightarrow> Request" where
  "hfRequest model prompt =
     \<lparr>url = ''https://api-inference.huggingface.co/models/'' @ model,
      payload = JObj
        [(''inputs'', JStr prompt),
         (''parameters'', JObj
            [(''max_new_tokens'', JNum True ''150''), (''temperature'', JNum True ''0.7''),
             (''do_sample'', JBool True), (''return_full_text'', JBool False)]),
         (''options'', JObj [(''wait_for_model'', JBool True)])]\<rparr>"

text \<open>The body of the branch \<^verbatim>\<open>response.ok\<close>, from the parsed data on: \<open>Inl\<close> when
  \<^verbatim>\<open>trim\<close> is called on a value that is no string, which throws; else the returned value,
  \<open>None\<close> for \<^verbatim>\<open>null\<close>.\<close>

fun generatedText :: "json \<Rightarrow> unit + string option" where
  "generatedText (JArr xs) =
     (case (case xs of [] \<Rightarrow> None | JNull # rest \<Rightarrow> None | x # rest \<Rightarrow> property x ''generated_text'') of
        None \<Rightarrow> Inr None
      | Some g \<Rightarrow>
          if truthy g then (case g of JStr s \<Rightarrow> Inr (Some (trim s)) | other \<Rightarrow> Inl ())
          else Inr None)"
| "generatedText (JStr s) = (if s \<noteq> [] then Inr (Some (trim s)) else Inr None)"
| "generatedText v = Inr None"

text \<open>The \<^verbatim>\<open>for\<close> loop from a value of \<^verbatim>\<open>attempt\<close> on. The local \<open>caught\<close> is the
  \<^verbatim>\<open>catch\<close> block, entered when \<^verbatim>\<open>fetch\<close>, \<^verbatim>\<open>json()\<close> or \<^verbatim>\<open>trim\<close> throws.\<close>

function attempts :: "network \<Rightarrow> string \<Rightarrow> string \<Rightarrow> nat \<Rightarrow> event list \<Rightarrow> string option \<times> event list" where
  "attempts net model prompt attempt hist =
     (if attempt < maxRetries
      then
        (let req = hfRequest model prompt;
             hist1 = hist @ [Fetch req];
             caught = (\<lambda>u::unit.
               if attempt = maxRetries - 1 then (None, hist1)
               else attempts net model prompt (attempt + 1) (hist1 @ [Sleep 1500]))
         in case net hist req of
              Rejected m \<Rightarrow> caught ()
            | Responded status body \<Rightarrow>
                if ok status
                then
                  (case body of
                     Inl m \<Rightarrow> caught ()
                   | Inr data \<Rightarrow>
                       (case generatedText data of
                          Inl u \<Rightarrow> caught ()
                        | Inr result \<Rightarrow> (result, hist1)))
                else if status = 503
                then attempts net model prompt (attempt + 1)
                       (hist1 @ [Sleep (3000 * (attempt + 1))])
                else (None, hist1))
      else (None, hist))"
  by pat_completeness auto
termination
  by (relation "measure (\<lambda>(net, model, prompt, attempt, hist). maxRetries - attempt)") auto

declare attempts.simps [simp del]

definition callHuggingFaceAPI :: "network \<Rightarrow> string \<Rightarrow> string \<Rightarrow> event list \<Rightarrow> string option \<times> event list" where
  "callHuggingFaceAPI net model prompt hist = attempts net model prompt 0 hist"

section \<open>File validation\<close>

text \<open>The two properties of a browser \<^verbatim>\<open>File\<close> that \<^verbatim>\<open>validateFile\<close> reads; a size is a
  count of bytes.\<close>

record File =
  name :: string
  size_bytes :: nat

record Validation =
  isValid :: bool
  error :: "string option"

definition allowedTypes :: "string list" where
  "allowedTypes = [''.pdf'']"

definition maxSize :: nat where
  "maxSize = 10 * 1024 * 1024"

definition validateFile :: "File \<Rightarrow> Validation" where
  "validateFile file =
     (let fileExt = toLowerCase (name file);
          hasValidExtension = list_ex (\<lambda>ext. endsWith fileExt ext) allowedTypes
      in if \<not> hasValidExtension
         then \<lparr>isValid = False,
               error = Some (''Invalid file type. Please upload one of: '' @ join '', '' allowedTypes)\<rparr>
         else if size_bytes file > maxSize
         then \<lparr>isValid = False, error = Some ''File size exceeds 10MB limit''\<rparr>
         else if size_bytes file = 0
         then \<lparr>isValid = False, error = Some ''Empty file detected''\<rparr>
         else \<lparr>isValid = True, error = None\<rparr>)"

section \<open>The role-keyed skill vocabulary\<close>

definition dataSkills :: "string list" where
  "dataSkills = [''python'', ''r'', ''sql'', ''pandas'', ''numpy'', ''scikit-learn'',
     ''tensorflow'', ''pytorch'', ''tableau'', ''power bi'', ''spark'', ''hadoop'',
     ''statistics'', ''machine learning'']"

definition softwareSkills :: "string list" where
  "softwareSkills = [''javascript'', ''python'', ''java'', ''react'', ''node.js'', ''git'',
     ''api'', ''database'', ''testing'', ''agile'', ''docker'', ''kubernetes'']"

definition devopsSkills :: "string list" where
  "devopsSkills = [''docker'', ''kubernetes'', ''aws'', ''azure'', ''jenkins'', ''ci/cd'',
     ''terraform'', ''ansible'', ''linux'', ''monitoring'', ''automation'']"

definition frontendSkills :: "string list" where
  "frontendSkills = [''javascript'', ''react'', ''vue'', ''angular'', ''html'', ''css'',
     ''typescript'', ''webpack'', ''sass'', ''responsive design'']"

definition backendSkills :: "string list" where
  "backendSkills = [''node.js'', ''python'', ''java'', ''api'', ''database'', ''mongodb'',
     ''postgresql'', ''redis'', ''microservices'']"

definition mobileSkills :: "string list" where
  "mobileSkills = [''react native'', ''flutter'', ''swift'', ''kotlin'', ''ios'', ''android'',
     ''mobile development'']"

text \<open>The object literal, as the list of its entries in insertion order, which is the order
  \<^verbatim>\<open>Object.entries\<close> walks.\<close>

definition roleSkillMap :: "(string \<times> string list) list" where
  "roleSkillMap =
     [(''data'', dataSkills), (''software'', softwareSkills), (''devops'', devopsSkills),
      (''frontend'', frontendSkills), (''backend'', backendSkills), (''mobile'', mobileSkills)]"

text \<open>The \<^verbatim>\<open>for ... of\<close> loop with its early return; \<open>None\<close> when the loop runs out.\<close>

fun firstBucket :: "string \<Rightarrow> (string \<times> string list) list \<Rightarrow> string list option" where
  "firstBucket roleLower [] = None"
| "firstBucket roleLower ((key, skills) # entries) =
     (if includes_str roleLower key then Some skills else firstBucket roleLower entries)"

definition getRoleSpecificSkills :: "string \<Rightarrow> string list" where
  "getRoleSpecificSkills role =
     (let roleLower = toLowerCase role
      in case firstBucket roleLower roleSkillMap of
           Some skills \<Rightarrow> skills
         | None \<Rightarrow> the (map_of roleSkillMap ''software''))"

section \<open>The heuristic analysis\<close>

datatype Priority = High | Medium | Low

record Improvement =
  priority :: Priority
  suggestion :: string
  category :: string

record AIAnalysisResponse =
  score :: int
  strengths :: "string list"
  improvements :: "Improvement list"
  missing_elements :: "string list"
  role_specific_advice :: "string list"
  contextual_insights :: "string list"

text \<open>The object \<^verbatim>\<open>analysisResults\<close> of \<^verbatim>\<open>performNLPAnalysis\<close>; its fields \<^verbatim>\<open>skills\<close> and
  \<^verbatim>\<open>strengths\<close> are \<open>skills_nlp\<close> and \<open>strengths_nlp\<close> here.\<close>

record NLPResults =
  skills_nlp :: "string list"
  experience_level :: string
  strengths_nlp :: "string list"
  suggestions :: "string list"

text \<open>The pattern \<^verbatim>\<open>\bskill\b\<close> that \<^verbatim>\<open>new RegExp\<close> builds around a skill. In
  \<^verbatim>\<open>findSkillsInText\<close> every metacharacter of the skill is escaped first, so the skill
  stands for itself; in \<^verbatim>\<open>performNLPAnalysis\<close> only a first \<^verbatim>\<open>.\<close> is escaped, and the
  skills there are a fixed list without any other metacharacter.\<close>

definition wholeWord :: "string \<Rightarrow> regex" where
  "wholeWord skill = Seq [WordB, Str skill, WordB]"

definition findSkillsInText :: "string \<Rightarrow> string list \<Rightarrow> string list" where
  "findSkillsInText t roleSkills = filter (\<lambda>skill. test (wholeWord skill) True t) roleSkills"

text \<open>The three patterns of the score.\<close>

definition impactPattern :: regex where
  "impactPattern = Alts
     [Cat (Plus (Atom Digit)) (Str ''%''), Cat (Plus (Atom Digit)) (Str ''x''),
      Str ''increased'', Str ''improved'', Str ''reduced'', Str ''optimized'']"

definition leadershipPattern :: regex where
  "leadershipPattern = Alts [Str ''lead'', Str ''manage'', Str ''mentor'', Str ''supervise'']"

definition educationPattern :: regex where
  "educationPattern = Alts [Str ''bachelor'', Str ''master'', Str ''phd'', Str ''certified'']"

text \<open>The score is a sum of integers, on which \<^verbatim>\<open>Math.round\<close> is the identity.\<close>

definition calculateContextualScore :: "string \<Rightarrow> string \<Rightarrow> string list \<Rightarrow> string \<Rightarrow> int" where
  "calculateContextualScore t role skills experienceLevel =
     (let score0 = 50;
          roleSkills = getRoleSpecificSkills role;
          skillMatch = int (length (filter (\<lambda>skill. skill \<in> set roleSkills) skills));
          score1 = score0 + min (skillMatch * 8) 30;
          score2 = (if experienceLevel = ''Senior-level'' then score1 + 15
                    else if experienceLevel = ''Mid-level'' then score1 + 10
                    else score1 + 5);
          score3 = (if matchGlobal impactPattern False t \<noteq> None then score2 + 10 else score2);
          score4 = (if matchGlobal leadershipPattern False t \<noteq> None then score3 + 8 else score3);
          score5 = (if matchGlobal educationPattern False t \<noteq> None then score4 + 5 else score4)
      in min score5 100)"

definition achievementsPattern :: regex where
  "achievementsPattern = Alts
     [Cat (Plus (Atom Digit)) (Str ''%''), Cat (Plus (Atom Digit)) (Str ''x''),
      Cat (Str ''$'') (Plus (Atom Digit)),
      Seq [Str ''increased'', LazyStar (Atom Dot), Plus (Atom Digit)],
      Seq [Str ''improved'', LazyStar (Atom Dot), Plus (Atom Digit)]]"

definition generateContextualStrengths ::
    "string \<Rightarrow> string list \<Rightarrow> NLPResults \<Rightarrow> string \<Rightarrow> string list" where
  "generateContextualStrengths t skills nlpResults role =
     (let strengths1 = (if length (strengths_nlp nlpResults) > 0
                        then take 2 (strengths_nlp nlpResults) else []);
          strengths2 = (if length skills > 0
                        then strengths1 @
                             [''Demonstrated expertise in key areas like '' @
                              join '', '' (take 3 skills) @ ''.'']
                        else strengths1);
          strengths3 = (if experience_level nlpResults \<noteq> []
                        then strengths2 @
                             [''Profile aligns with an '' @ experience_level nlpResults @
                              '' professional.'']
                        else strengths2);
          achievements = matchGlobal achievementsPattern True t;
          strengths4 = (case achievements of
                          None \<Rightarrow> strengths3
                        | Some found \<Rightarrow>
                            if length found > 0
                            then strengths3 @
                                 [''Strong track record of delivering measurable achievements and results.'']
                            else strengths3)
      in take 4 (filter (\<lambda>s. s \<noteq> [] \<and> length s > 15) (newSet strengths4)))"

text \<open>Shorthands for the pieces that recur in the patterns of \<^verbatim>\<open>detectContentElements\<close>:
  \<^verbatim>\<open>\s*\<close>, \<^verbatim>\<open>\s+\<close>, \<^verbatim>\<open>\d+\<close> and \<^verbatim>\<open>[\w-]+\<close>.\<close>

definition ws0 :: regex where "ws0 = Star (Atom Space)"
definition ws1 :: regex where "ws1 = Plus (Atom Space)"
definition digits :: regex where "digits = Plus (Atom Digit)"
definition slug :: regex where "slug = Plus (OneOf [WordCh, Ch (CHR ''-'')])"

record ContentElements =
  hasGitHub :: bool
  hasPortfolio :: bool
  hasLinkedIn :: bool
  hasLiveProjects :: bool
  hasQuantifiableResults :: bool
  hasProjectExperience :: bool
  hasLeadership :: bool
  hasCertifications :: bool
  hasEducation :: bool
  hasWorkExperience :: bool
  hasAPIExperience :: bool
  hasVersionControl :: bool
  hasTesting :: bool
  hasCloudExperience :: bool
  hasDatabaseExperience :: bool
  hasMLExperience :: bool
  hasDataViz :: bool
  hasStatistics :: bool

definition quantifiablePattern :: regex where
  "quantifiablePattern = Alts
     [Cat digits (Str ''%''), Cat digits (Str ''+''),
      Cat (Str ''$'') (Plus (OneOf [Digit, Ch (CHR '','')])),
      Seq [Str ''increased'', ws1, Str ''by'', ws1, digits],
      Seq [Str ''improved'', ws1, Str ''by'', ws1, digits],
      Seq [Str ''reduced'', ws1, Str ''by'', ws1, digits],
      Seq [Str ''optimized'', ws1, Str ''by'', ws1, digits],
      Seq [digits, Str ''x'', ws1]]"

definition leadershipElement :: regex where
  "leadershipElement = Alts
     [Cat (Str ''lead'') ws1, Cat (Str ''led'') ws1,
      Seq [Str ''manage'', Opt (OneOf [Ch (CHR ''d'')]), ws1],
      Seq [Str ''mentor'', Opt (OneOf [Ch (CHR ''e''), Ch (CHR ''d'')]), ws1],
      Seq [Str ''supervise'', Opt (OneOf [Ch (CHR ''d'')]), ws1],
      Seq [Str ''team'', ws0, Str ''lead''],
      Seq [Str ''project'', ws0, Str ''manager'']]"

definition detectContentElements :: "string \<Rightarrow> ContentElements" where
  "detectContentElements resumeText =
     \<lparr>hasGitHub = test (Alts
        [Cat (Str ''github.com/'') slug, Str ''github.io'', Cat (Str ''git.'') slug,
         Seq [Str ''github'', ws0, OneOf [Ch (CHR '':''), Ch (CHR ''/'')]]]) True resumeText,
      hasPortfolio = test (Alts
        [Str ''portfolio'', Seq [Str ''personal'', ws0, Str ''website''],
         Seq [Str ''my'', ws0, Str ''website''], Seq [Str ''website'', ws0, Str '':'']])
        True resumeText,
      hasLinkedIn = test (Alts
        [Str ''linkedin.com/in/'', Seq [Str ''linkedin'', ws0, Str ''profile'']]) True resumeText,
      hasLiveProjects = test (Alts
        [Seq [Str ''live'', ws0, Str ''project''], Str ''deployed'', Str ''production'',
         Str ''hosted'', Str ''demo'', Str ''url'', Str ''link'', Str ''website'']) True resumeText,
      hasQuantifiableResults = test quantifiablePattern True resumeText,
      hasProjectExperience = test (Alts
        [Seq [Str ''project'', Opt (OneOf [Ch (CHR ''s'')]), ws0, Str '':''],
         Cat (Str ''built'') ws1, Cat (Str ''developed'') ws1, Cat (Str ''created'') ws1,
         Cat (Str ''implemented'') ws1, Cat (Str ''designed'') ws1, Str ''launched''])
        True resumeText,
      hasLeadership = test leadershipElement True resumeText,
      hasCertifications = test (Alts
        [Str ''certified'', Str ''certification'', Str ''certificate'',
         Seq [Str ''aws'', ws1, Str ''certified''], Seq [Str ''gcp'', ws1, Str ''certified'']])
        True resumeText,
      hasEducation = test (Alts
        [Str ''bachelor'', Str ''master'', Str ''phd'', Str ''degree'', Str ''university'',
         Str ''college'', Str ''graduated'', Str ''education'', Str ''b.s.'', Str ''m.s.''])
        True resumeText,
      hasWorkExperience = test (Alts
        [Str ''experience'', Seq [Str ''worked'', ws1, Str ''at''],
         Seq [Str ''employed'', ws1, Str ''at''], Str ''internship'',
         Seq [Str ''intern'', ws1, Str ''at''], Seq [Str ''software'', ws1, Str ''engineer''],
         Seq [Str ''data'', ws1, Str ''scientist'']]) True resumeText,
      hasAPIExperience = test (Alts
        [Seq [WordB, Str ''api'', WordB], Seq [Str ''rest'', ws0, Str ''api''], Str ''restful'',
         Str ''graphql'', Str ''microservice'', Seq [Str ''web'', ws0, Str ''service'']])
        True resumeText,
      hasVersionControl = test (Alts
        [Cat (Str ''git'') WordB, Str ''github'', Str ''gitlab'', Str ''bitbucket'',
         Seq [Str ''version'', ws0, Str ''control''], Seq [Str ''source'', ws0, Str ''control'']])
        True resumeText,
      hasTesting = test (Alts
        [Str ''test'', Str ''testing'', Seq [Str ''unit'', ws0, Str ''test''],
         Seq [Str ''integration'', ws0, Str ''test''], Str ''tdd'', Str ''jest'', Str ''pytest'',
         Str ''junit'']) True resumeText,
      hasCloudExperience = test (Alts
        [Str ''aws'', Str ''azure'', Str ''gcp'', Seq [Str ''google'', ws0, Str ''cloud''],
         Str ''docker'', Str ''kubernetes'', Str ''container'', Str ''ec2'', Str ''s3'',
         Str ''lambda'']) True resumeText,
      hasDatabaseExperience = test (Alts
        [Str ''database'', Str ''sql'', Str ''mysql'', Str ''postgresql'', Str ''mongodb'',
         Str ''nosql'', Str ''redis'']) True resumeText,
      hasMLExperience = test (Alts
        [Seq [Str ''machine'', ws0, Str ''learning''], Cat (Str ''ml'') WordB,
         Seq [Str ''artificial'', ws0, Str ''intelligence''], Cat (Str ''ai'') WordB,
         Seq [Str ''deep'', ws0, Str ''learning''], Seq [Str ''neural'', ws0, Str ''network''],
         Str ''nlp'', Str ''tensorflow'', Str ''pytorch'', Str ''scikit-learn'']) True resumeText,
      hasDataViz = test (Alts
        [Str ''visualization'', Str ''tableau'', Seq [Str ''power'', ws0, Str ''bi''],
         Str ''d3.js'', Str ''plotly'', Str ''matplotlib'', Str ''seaborn'', Str ''dashboard''])
        True resumeText,
      hasStatistics = test (Alts
        [Str ''statistics'', Str ''statistical'', Str ''regression'', Str ''hypothesis'',
         Seq [Str ''a/b'', ws0, Str ''test''], Str ''analytics'']) True resumeText\<rparr>"

text \<open>\<^verbatim>\<open>improvements.find(i => i.suggestion === suggestion)\<close>, \<open>None\<close> for \<^verbatim>\<open>undefined\<close>.\<close>

definition findBySuggestion :: "Improvement list \<Rightarrow> string \<Rightarrow> Improvement option" where
  "findBySuggestion imps s = find (\<lambda>i. suggestion i = s) imps"

text \<open>The function is declared \<^verbatim>\<open>async\<close> and awaits nothing. Every suggestion that
  \<^verbatim>\<open>find\<close> looks for was taken from the list it searches, so it finds one
  (lemma \<open>findBySuggestion_defined\<close> below) and \<^const>\<open>the\<close> is applied to \<open>Some\<close> only.\<close>

definition generateTargetedImprovements ::
    "string \<Rightarrow> string \<Rightarrow> string list \<Rightarrow> NLPResults \<Rightarrow> Improvement list" where
  \<open>generateTargetedImprovements resumeText role skills nlpResults =
     (let contentElements = detectContentElements resumeText;
          improvements1 =
            (if \<not> hasQuantifiableResults contentElements
             then [\<lparr>priority = High,
                    suggestion = ''Strengthen your impact by adding metrics to your achievements (e.g., "reduced latency by 30%", "increased user engagement by 15%").'',
                    category = ''Impact & Results''\<rparr>]
             else []);
          improvements2 =
            (if \<not> hasGitHub contentElements \<and>
                (includes_str (toLowerCase role) ''software'' \<or> includes_str (toLowerCase role) ''data'')
             then improvements1 @
                  [\<lparr>priority = High,
                    suggestion = ''A strong GitHub profile is essential. Add a link and feature 2-3 well-documented projects.'',
                    category = ''Professional Presence''\<rparr>]
             else improvements1);
          improvements3 =
            (if \<not> hasProjectExperience contentElements \<and> experience_level nlpResults = ''Entry-level''
             then improvements2 @
                  [\<lparr>priority = High,
                    suggestion = ''Build and showcase personal projects to demonstrate practical skills beyond coursework.'',
                    category = ''Experience''\<rparr>]
             else improvements2);
          improvements4 =
            (if includes_str (toLowerCase role) ''data'' \<and> \<not> hasDataViz contentElements
             then improvements3 @
                  [\<lparr>priority = Medium,
                    suggestion = ''Showcase your data storytelling skills by adding projects with visualizations or dashboards (e.g., using Tableau, Power BI, or Plotly).'',
                    category = ''Technical Skills''\<rparr>]
             else improvements3);
          improvements5 =
            (if includes_str (toLowerCase role) ''software'' \<and> \<not> hasTesting contentElements
             then improvements4 @
                  [\<lparr>priority = Medium,
                    suggestion = ''Mention specific testing practices or frameworks used in your projects (e.g., unit tests with Jest, integration testing).'',
                    category = ''Technical Skills''\<rparr>]
             else improvements4);
          uniqueSuggestions =
            map (\<lambda>s. the (findBySuggestion improvements5 s))
              (newSet (map suggestion improvements5))
      in take 5 uniqueSuggestions)\<close>

definition identifyMissingElements :: "string \<Rightarrow> string \<Rightarrow> string list \<Rightarrow> string list" where
  "identifyMissingElements t role skills =
     (let contentElements = detectContentElements t;
          missing1 = (if \<not> hasQuantifiableResults contentElements
                      then [''Quantifiable achievements with metrics''] else []);
          missing2 = (if \<not> hasProjectExperience contentElements
                      then missing1 @ [''Dedicated projects section''] else missing1);
          missing3 = (if includes_str (toLowerCase role) ''software'' \<and> \<not> hasVersionControl contentElements
                      then missing2 @ [''Version control (Git/GitHub)''] else missing2);
          missing4 = (if includes_str (toLowerCase role) ''data'' \<and> \<not> hasMLExperience contentElements
                      then missing3 @ [''Machine learning project experience''] else missing3)
      in take 4 (newSet missing4))"

definition generateRoleSpecificAdvice ::
    "string \<Rightarrow> string \<Rightarrow> string list \<Rightarrow> string \<Rightarrow> string list" where
  "generateRoleSpecificAdvice t role skills experienceLevel =
     (let contentElements = detectContentElements t;
          roleLower = toLowerCase role;
          advice1 = (if includes_str roleLower ''data'' \<and> \<not> hasMLExperience contentElements
                     then [''Focus on building an end-to-end machine learning project, from data cleaning to model deployment.'']
                     else []);
          advice2 = (if includes_str roleLower ''software'' \<and> \<not> hasAPIExperience contentElements
                     then advice1 @ [''Gain experience with API development (REST or GraphQL) as it is a core skill for most developer roles.'']
                     else advice1);
          advice3 = (if experienceLevel = ''Entry-level''
                     then advice2 @ [''Contribute to an open-source project to gain collaborative development experience and enhance your GitHub profile.'']
                     else advice2)
      in take 3 (newSet advice3))"

text \<open>\<^verbatim>\<open>Math.round((matchCount / n) * 100)\<close> for a count and a positive length: the quotient
  rounded to the nearest integer, halves upwards. For the six lengths of the vocabularies
  (14, 12, 11, 10, 9 and 7) the exact quotient is never half-way between two integers, so
  the floating-point computation of the source rounds to the same integer.\<close>

definition roundedPercentage :: "nat \<Rightarrow> nat \<Rightarrow> nat" where
  "roundedPercentage matchCount n = (200 * matchCount + n) div (2 * n)"

definition generateContextualInsights ::
    "NLPResults \<Rightarrow> string \<Rightarrow> string list \<Rightarrow> string \<Rightarrow> string list" where
  "generateContextualInsights nlpResults role skills resumeText =
     (let insights1 = (if experience_level nlpResults \<noteq> []
                       then [''Your resume appears to be at an '' @ experience_level nlpResults @
                             '' experience level.'']
                       else []);
          roleSkills = getRoleSpecificSkills role;
          insights2 =
            (if length roleSkills > 0
             then (let matchCount = length (filter (\<lambda>s. s \<in> set roleSkills) skills);
                       matchPercentage = roundedPercentage matchCount (length roleSkills)
                   in insights1 @
                      [''Your skills show a ~'' @ showNat matchPercentage @
                       ''% alignment with the key technologies for a '' @ role @ '' role.''])
             else insights1);
          insights3 =
            (if hasQuantifiableResults (detectContentElements resumeText)
             then insights2 @ [''Your use of metrics to describe achievements is a strong positive signal to recruiters.'']
             else insights2)
      in take 3 (newSet insights3))"

section \<open>The analysis pipeline\<close>

definition commonSkills :: "string list" where
  "commonSkills = [''python'', ''java'', ''javascript'', ''react'', ''node'', ''sql'', ''aws'',
     ''docker'', ''kubernetes'', ''git'', ''machine learning'', ''data analysis'', ''pandas'',
     ''numpy'', ''scikit-learn'', ''tensorflow'', ''pytorch'', ''api'', ''flask'', ''streamlit'',
     ''power bi'', ''tableau'']"

text \<open>The four patterns \<^verbatim>\<open>word.*?(?:in|with|at)\s+([^.]+)\<close> of the strengths step, and the
  pattern \<^verbatim>\<open>keyword[^.]*\<close> of the gap step.\<close>

definition strengthPattern :: "string \<Rightarrow> regex" where
  "strengthPattern word = Seq
     [Str word, LazyStar (Atom Dot), Alts [Str ''in'', Str ''with'', Str ''at''], ws1,
      Plus (NoneOf [Ch (CHR ''.'')])]"

definition strengthPatterns :: "regex list" where
  "strengthPatterns = map strengthPattern [''strong'', ''excellent'', ''experienced'', ''skilled'']"

definition improvementKeywords :: "string list" where
  "improvementKeywords = [''need'', ''lack'', ''missing'', ''should add'', ''recommend'', ''suggest'',
     ''improve'']"

definition keywordPattern :: "string \<Rightarrow> regex" where
  "keywordPattern keyword = Cat (Str keyword) (Star (NoneOf [Ch (CHR ''.'')]))"

text \<open>\<^verbatim>\<open>matches.slice(0, n)\<close> when \<^verbatim>\<open>matches\<close> is not \<^verbatim>\<open>null\<close>, nothing otherwise.\<close>

definition firstMatches :: "nat \<Rightarrow> regex \<Rightarrow> string \<Rightarrow> string list" where
  "firstMatches n pattern s = (case matchGlobal pattern True s of None \<Rightarrow> [] | Some found \<Rightarrow> take n found)"

definition emptyResults :: NLPResults where
  "emptyResults = \<lparr>skills_nlp = [], experience_level = [], strengths_nlp = [], suggestions = []\<rparr>"

definition newlines :: string where
  "newlines = [CHR 0x0A, CHR 0x0A]"

text \<open>
  The four inference calls, one after the other, each on the history the previous one left.
  A response counts when it is a non-empty string. Nothing in the \<^verbatim>\<open>try\<close> block throws:
  \<^const>\<open>callHuggingFaceAPI\<close> returns on every path, and the rest computes on strings and
  arrays; the \<^verbatim>\<open>catch\<close> block, which returns the same object, is never entered.
\<close>

definition performNLPAnalysis :: "network \<Rightarrow> string \<Rightarrow> string \<Rightarrow> event list \<Rightarrow> NLPResults \<times> event list" where
  \<open>performNLPAnalysis net resumeText predictedRole hist =
     (let analysisResults0 = emptyResults;
          skillExtractionPrompt =
            ''Extract technical skills, programming languages, frameworks, and tools from this resume text. List them as comma-separated values:''
            @ newlines @ take 800 resumeText;
          (skillsResponse, hist1) =
            callHuggingFaceAPI net ''microsoft/DialoGPT-large'' skillExtractionPrompt hist;
          analysisResults1 =
            (case skillsResponse of
               None \<Rightarrow> analysisResults0
             | Some response \<Rightarrow>
                 if response = [] then analysisResults0
                 else
                   (let skillsText = toLowerCase response
                    in analysisResults0
                         \<lparr>skills_nlp := filter
                            (\<lambda>skill. test (wholeWord skill) True skillsText \<or>
                                     test (wholeWord skill) True (toLowerCase resumeText))
                            commonSkills\<rparr>));
          experiencePrompt =
            ''Based on this resume, classify the candidate's experience level as: Entry-level, Mid-level, or Senior-level. Respond with just one phrase:''
            @ newlines @ take 600 resumeText;
          (experienceResponse, hist2) =
            callHuggingFaceAPI net ''facebook/blenderbot-400M-distill'' experiencePrompt hist1;
          analysisResults2 =
            (case experienceResponse of
               None \<Rightarrow> analysisResults1
             | Some response \<Rightarrow>
                 if response = [] then analysisResults1
                 else
                   (let expText = toLowerCase response
                    in if includes_str expText ''senior'' \<or> includes_str expText ''lead'' \<or>
                          includes_str expText ''manager''
                       then analysisResults1\<lparr>experience_level := ''Senior-level''\<rparr>
                       else if includes_str expText ''mid'' \<or> includes_str expText ''intermediate''
                       then analysisResults1\<lparr>experience_level := ''Mid-level''\<rparr>
                       else analysisResults1\<lparr>experience_level := ''Entry-level''\<rparr>));
          strengthsPrompt =
            ''Analyze this resume and identify the top 3 specific strengths for a '' @ predictedRole @
            '' position. Focus on concrete achievements, relevant experience, and demonstrated skills:''
            @ newlines @ take 700 resumeText;
          (strengthsResponse, hist3) =
            callHuggingFaceAPI net ''microsoft/DialoGPT-medium'' strengthsPrompt hist2;
          analysisResults3 =
            (case strengthsResponse of
               None \<Rightarrow> analysisResults2
             | Some response \<Rightarrow>
                 if response = [] then analysisResults2
                 else analysisResults2
                        \<lparr>strengths_nlp := strengths_nlp analysisResults2 @
                           concat (map (\<lambda>pattern. firstMatches 2 pattern response) strengthPatterns)\<rparr>);
          gapAnalysisPrompt =
            ''Compare this resume against requirements for a '' @ predictedRole @
            '' role. Identify what's missing or needs improvement. Be specific:''
            @ newlines @ take 600 resumeText;
          (gapResponse, hist4) =
            callHuggingFaceAPI net ''microsoft/DialoGPT-large'' gapAnalysisPrompt hist3;
          analysisResults4 =
            (case gapResponse of
               None \<Rightarrow> analysisResults3
             | Some response \<Rightarrow>
                 if response = [] then analysisResults3
                 else analysisResults3
                        \<lparr>suggestions := suggestions analysisResults3 @
                           concat (map (\<lambda>keyword. firstMatches 1 (keywordPattern keyword) response)
                                     improvementKeywords)\<rparr>)
      in (analysisResults4, hist4))\<close>

text \<open>The report that the pipeline builds from the results of the inference step. The text
  is lower-cased once; \<^verbatim>\<open>generateTargetedImprovements\<close> and
  \<^verbatim>\<open>generateContextualInsights\<close> get the text as it came.\<close>

definition buildReport :: "NLPResults \<Rightarrow> string \<Rightarrow> string \<Rightarrow> AIAnalysisResponse" where
  "buildReport nlpResults resumeText predictedRole =
     (let t = toLowerCase resumeText;
          roleSpecificSkills = getRoleSpecificSkills predictedRole;
          detectedSkills = newSet (skills_nlp nlpResults @ findSkillsInText t roleSpecificSkills)
      in \<lparr>score = calculateContextualScore t predictedRole detectedSkills (experience_level nlpResults),
          strengths = generateContextualStrengths t detectedSkills nlpResults predictedRole,
          improvements = generateTargetedImprovements resumeText predictedRole detectedSkills nlpResults,
          missing_elements = identifyMissingElements t predictedRole detectedSkills,
          role_specific_advice =
            generateRoleSpecificAdvice t predictedRole detectedSkills (experience_level nlpResults),
          contextual_insights =
            generateContextualInsights nlpResults predictedRole detectedSkills resumeText\<rparr>)"

text \<open>The promise of \<^verbatim>\<open>analyzeResumeContextually\<close> settles with a report (\<open>Inr\<close>) or an
  exception (\<open>Inl\<close>); the steps above throw nothing, so this one is always fulfilled.\<close>

definition analyzeResumeContextually ::
    "network \<Rightarrow> string \<Rightarrow> string \<Rightarrow> event list \<Rightarrow> (error + AIAnalysisResponse) \<times> event list" where
  "analyzeResumeContextually net resumeText predictedRole hist =
     (let (nlpResults, hist1) = performNLPAnalysis net resumeText predictedRole hist
      in (Inr (buildReport nlpResults resumeText predictedRole), hist1))"

definition fallbackReport :: AIAnalysisResponse where
  "fallbackReport =
     \<lparr>score = 60,
      strengths = [''Resume submitted for analysis''],
      improvements =
        [\<lparr>priority = Medium,
          suggestion = ''AI analysis is temporarily unavailable. Please try again later.'',
          category = ''System''\<rparr>],
      missing_elements = [],
      role_specific_advice = [],
      contextual_insights = [''Analysis will be available shortly'']\<rparr>"

text \<open>The \<^verbatim>\<open>try\<close>/\<^verbatim>\<open>catch\<close> of \<^verbatim>\<open>getResumeImprovements\<close> around an analysis, and the function
  itself, which puts \<^const>\<open>analyzeResumeContextually\<close> there.\<close>

definition getResumeImprovementsWith ::
    "(network \<Rightarrow> string \<Rightarrow> string \<Rightarrow> event list \<Rightarrow> (error + AIAnalysisResponse) \<times> event list)
     \<Rightarrow> network \<Rightarrow> string \<Rightarrow> string \<Rightarrow> event list \<Rightarrow> AIAnalysisResponse \<times> event list" where
  "getResumeImprovementsWith analyze net resumeText predictedRole hist =
     (case analyze net resumeText predictedRole hist of
        (Inr report, hist1) \<Rightarrow> (report, hist1)
      | (Inl thrown, hist1) \<Rightarrow> (fallbackReport, hist1))"


section \<open>The lists before deduplication\<close>

text \<open>
  Each generator fills an array rule by rule, in a fixed order, and returns it deduplicated
  and then truncated. These are the arrays as they stand at the \<^verbatim>\<open>return\<close>, one segment
  for each rule.
\<close>

definition strengthCandidates ::
    "string \<Rightarrow> string list \<Rightarrow> NLPResults \<Rightarrow> string \<Rightarrow> string list" where
  "strengthCandidates t skills nlpResults role =
     (if length (strengths_nlp nlpResults) > 0 then take 2 (strengths_nlp nlpResults) else []) @
     (if length skills > 0
      then [''Demonstrated expertise in key areas like '' @ join '', '' (take 3 skills) @ ''.'']
      else []) @
     (if experience_level nlpResults \<noteq> []
      then [''Profile aligns with an '' @ experience_level nlpResults @ '' professional.'']
      else []) @
     (case matchGlobal achievementsPattern True t of
        None \<Rightarrow> []
      | Some found \<Rightarrow>
          if length found > 0
          then [''Strong track record of delivering measurable achievements and results.'']
          else [])"

definition improvementCandidates ::
    "string \<Rightarrow> string \<Rightarrow> string list \<Rightarrow> NLPResults \<Rightarrow> Improvement list" where
  \<open>improvementCandidates resumeText role skills nlpResults =
     (if \<not> hasQuantifiableResults (detectContentElements resumeText)
      then [\<lparr>priority = High,
             suggestion = ''Strengthen your impact by adding metrics to your achievements (e.g., "reduced latency by 30%", "increased user engagement by 15%").'',
             category = ''Impact & Results''\<rparr>]
      else []) @
     (if \<not> hasGitHub (detectContentElements resumeText) \<and>
         (includes_str (toLowerCase role) ''software'' \<or> includes_str (toLowerCase role) ''data'')
      then [\<lparr>priority = High,
             suggestion = ''A strong GitHub profile is essential. Add a link and feature 2-3 well-documented projects.'',
             category = ''Professional Presence''\<rparr>]
      else []) @
     (if \<not> hasProjectExperience (detectContentElements resumeText) \<and>
         experience_level nlpResults = ''Entry-level''
      then [\<lparr>priority = High,
             suggestion = ''Build and showcase personal projects to demonstrate practical skills beyond coursework.'',
             category = ''Experience''\<rparr>]
      else []) @
     (if includes_str (toLowerCase role) ''data'' \<and> \<not> hasDataViz (detectContentElements resumeText)
      then [\<lparr>priority = Medium,
             suggestion = ''Showcase your data storytelling skills by adding projects with visualizations or dashboards (e.g., using Tableau, Power BI, or Plotly).'',
             category = ''Technical Skills''\<rparr>]
      else []) @
     (if includes_str (toLowerCase role) ''software'' \<and> \<not> hasTesting (detectContentElements resumeText)
      then [\<lparr>priority = Medium,
             suggestion = ''Mention specific testing practices or frameworks used in your projects (e.g., unit tests with Jest, integration testing).'',
             category = ''Technical Skills''\<rparr>]
      else [])\<close>

definition missingCandidates :: "string \<Rightarrow> string \<Rightarrow> string list \<Rightarrow> string list" where
  "missingCandidates t role skills =
     (if \<not> hasQuantifiableResults (detectContentElements t)
      then [''Quantifiable achievements with metrics''] else []) @
     (if \<not> hasProjectExperience (detectContentElements t)
      then [''Dedicated projects section''] else []) @
     (if includes_str (toLowerCase role) ''software'' \<and> \<not> hasVersionControl (detectContentElements t)
      then [''Version control (Git/GitHub)''] else []) @
     (if includes_str (toLowerCase role) ''data'' \<and> \<not> hasMLExperience (detectContentElements t)
      then [''Machine learning project experience''] else [])"

definition adviceCandidates :: "string \<Rightarrow> string \<Rightarrow> string list \<Rightarrow> string \<Rightarrow> string list" where
  "adviceCandidates t role skills experienceLevel =
     (if includes_str (toLowerCase role) ''data'' \<and> \<not> hasMLExperience (detectContentElements t)
      then [''Focus on building an end-to-end machine learning project, from data cleaning to model deployment.'']
      else []) @
     (if includes_str (toLowerCase role) ''software'' \<and> \<not> hasAPIExperience (detectContentElements t)
      then [''Gain experience with API development (REST or GraphQL) as it is a core skill for most developer roles.'']
      else []) @
     (if experienceLevel = ''Entry-level''
      then [''Contribute to an open-source project to gain collaborative development experience and enhance your GitHub profile.'']
      else [])"

definition insightCandidates ::
    "NLPResults \<Rightarrow> string \<Rightarrow> string list \<Rightarrow> string \<Rightarrow> string list" where
  "insightCandidates nlpResults role skills resumeText =
     (if experience_level nlpResults \<noteq> []
      then [''Your resume appears to be at an '' @ experience_level nlpResults @
            '' experience level.'']
      else []) @
     (if length (getRoleSpecificSkills role) > 0
      then [''Your skills show a ~'' @
            showNat (roundedPercentage
              (length (filter (\<lambda>s. s \<in> set (getRoleSpecificSkills role)) skills))
              (length (getRoleSpecificSkills role))) @
            ''% alignment with the key technologies for a '' @ role @ '' role.'']
      else []) @
     (if hasQuantifiableResults (detectContentElements resumeText)
      then [''Your use of metrics to describe achievements is a strong positive signal to recruiters.'']
      else [])"

section \<open>The words of the specification\<close>

text \<open>
  The specification describes the normalized form of a text as the text with every run of
  white space collapsed to a single space, then trimmed.
\<close>

function collapseWhiteSpace :: "string \<Rightarrow> string" where
  "collapseWhiteSpace [] = []"
| "collapseWhiteSpace (c # cs) =
     (if isWhiteSpace c then CHR '' '' # collapseWhiteSpace (dropWhile isWhiteSpace cs)
      else c # collapseWhiteSpace cs)"
  by pat_completeness auto
termination
  by (relation "measure length") (auto simp: le_imp_less_Suc length_dropWhile_le)

definition normalizedText :: "string \<Rightarrow> string" where
  "normalizedText t = trim (collapseWhiteSpace t)"

section \<open>The patterns of the score as conditions on substrings\<close>

text \<open>
  The three patterns of \<^const>\<open>calculateContextualScore\<close>, read as what the text has to
  contain: a digit followed by \<^verbatim>\<open>%\<close> or by \<^verbatim>\<open>x\<close>, or one of the strings of the pattern as a
  substring. These definitions describe the patterns of the code, string by string. The
  leadership pattern has the four strings \<^verbatim>\<open>lead\<close>, \<^verbatim>\<open>manage\<close>, \<^verbatim>\<open>mentor\<close> and
  \<^verbatim>\<open>supervise\<close>; the verb form \<^verbatim>\<open>led\<close> holds none of them.
\<close>

definition digitThen :: "char \<Rightarrow> string \<Rightarrow> bool" where
  "digitThen c t = list_ex (\<lambda>d. sublist [d, c] t) ''0123456789''"

definition mentionsAny :: "string list \<Rightarrow> string \<Rightarrow> bool" where
  "mentionsAny words t = list_ex (\<lambda>w. sublist w t) words"

definition quantifiableImpact :: "string \<Rightarrow> bool" where
  "quantifiableImpact t =
     (digitThen (CHR ''%'') t \<or> digitThen (CHR ''x'') t \<or>
      mentionsAny [''increased'', ''improved'', ''reduced'', ''optimized''] t)"

definition leadershipStem :: "string \<Rightarrow> bool" where
  "leadershipStem t = mentionsAny [''lead'', ''manage'', ''mentor'', ''supervise''] t"

definition degreeKeyword :: "string \<Rightarrow> bool" where
  "degreeKeyword t = mentionsAny [''bachelor'', ''master'', ''phd'', ''certified''] t"

text \<open>The sum of the code before the clamp, and the sum cut at 100.\<close>

definition rawScore :: "string \<Rightarrow> string \<Rightarrow> string list \<Rightarrow> string \<Rightarrow> int" where
  "rawScore t role detected level =
     50
     + min (8 * int (length (filter (\<lambda>s. s \<in> set (getRoleSpecificSkills role)) detected))) 30
     + (if level = ''Senior-level'' then 15 else if level = ''Mid-level'' then 10 else 5)
     + (if quantifiableImpact t then 10 else 0)
     + (if leadershipStem t then 8 else 0)
     + (if degreeKeyword t then 5 else 0)"

definition cappedScore :: "string \<Rightarrow> string \<Rightarrow> string list \<Rightarrow> string \<Rightarrow> int" where
  "cappedScore t role detected level = min (rawScore t role detected level) 100"

section \<open>Properties\<close>

lemma roleSkillMap_software: "map_of roleSkillMap ''software'' = Some softwareSkills"
  by (simp add: roleSkillMap_def)

text \<open>
  Claim C6. \<^const>\<open>validateFile\<close> is a function of the file's name and size alone. A name
  whose lower-cased form does not end in \<^verbatim>\<open>.pdf\<close> is rejected as an invalid file type,
  whatever the size; a name that does is rejected as an empty file at size 0, as too large
  above 10,485,760 bytes, and accepted otherwise.
\<close>

theorem validateFile_rules:
  "validateFile f =
     (if \<not> suffix ''.pdf'' (toLowerCase (name f))
      then \<lparr>isValid = False, error = Some ''Invalid file type. Please upload one of: .pdf''\<rparr>
      else if size_bytes f = 0
      then \<lparr>isValid = False, error = Some ''Empty file detected''\<rparr>
      else if size_bytes f > 10485760
      then \<lparr>isValid = False, error = Some ''File size exceeds 10MB limit''\<rparr>
      else \<lparr>isValid = True, error = None\<rparr>)"
  by (simp add: validateFile_def allowedTypes_def maxSize_def endsWith_def Let_def)

text \<open>
  Claim C7. \<^const>\<open>getRoleSpecificSkills\<close> takes the vocabulary of the first of the six
  bucket keys, in the order data, software, devops, frontend, backend, mobile, that is a
  substring of the lower-cased role, and the software vocabulary when none is; the role
  \<^verbatim>\<open>Senior Data Scientist\<close> gets the data vocabulary.
\<close>

theorem getRoleSpecificSkills_buckets:
  "getRoleSpecificSkills role =
     (if sublist ''data'' (toLowerCase role) then dataSkills
      else if sublist ''software'' (toLowerCase role) then softwareSkills
      else if sublist ''devops'' (toLowerCase role) then devopsSkills
      else if sublist ''frontend'' (toLowerCase role) then frontendSkills
      else if sublist ''backend'' (toLowerCase role) then backendSkills
      else if sublist ''mobile'' (toLowerCase role) then mobileSkills
      else softwareSkills)
   \<and> getRoleSpecificSkills ''Senior Data Scientist'' =
       [''python'', ''r'', ''sql'', ''pandas'', ''numpy'', ''scikit-learn'', ''tensorflow'',
        ''pytorch'', ''tableau'', ''power bi'', ''spark'', ''hadoop'', ''statistics'',
        ''machine learning'']"
proof
  show "getRoleSpecificSkills role =
     (if sublist ''data'' (toLowerCase role) then dataSkills
      else if sublist ''software'' (toLowerCase role) then softwareSkills
      else if sublist ''devops'' (toLowerCase role) then devopsSkills
      else if sublist ''frontend'' (toLowerCase role) then frontendSkills
      else if sublist ''backend'' (toLowerCase role) then backendSkills
      else if sublist ''mobile'' (toLowerCase role) then mobileSkills
      else softwareSkills)"
    unfolding getRoleSpecificSkills_def Let_def roleSkillMap_software
    by (simp add: roleSkillMap_def includes_str_def)
  show "getRoleSpecificSkills ''Senior Data Scientist'' =
       [''python'', ''r'', ''sql'', ''pandas'', ''numpy'', ''scikit-learn'', ''tensorflow'',
        ''pytorch'', ''tableau'', ''power bi'', ''spark'', ''hadoop'', ''statistics'',
        ''machine learning'']"
    by code_simp
qed

subsection \<open>The matcher\<close>

lemma isDigit_set: "isDigit c \<longleftrightarrow> c \<in> set ''0123456789''"
proof
  assume "isDigit c"
  then have "48 \<le> (of_char c :: nat) \<and> (of_char c :: nat) \<le> 57" by (simp add: isDigit_def code_def)
  then have "(of_char c :: nat) = 48 \<or> (of_char c :: nat) = 49 \<or> (of_char c :: nat) = 50 \<or>
      (of_char c :: nat) = 51 \<or> (of_char c :: nat) = 52 \<or> (of_char c :: nat) = 53 \<or>
      (of_char c :: nat) = 54 \<or> (of_char c :: nat) = 55 \<or> (of_char c :: nat) = 56 \<or>
      (of_char c :: nat) = 57" by arith
  then have "(of_char c :: nat) \<in> of_char ` set ''0123456789''" by simp
  then show "c \<in> set ''0123456789''" by (simp only: inj_image_mem_iff[OF inj_of_char])
next
  assume "c \<in> set ''0123456789''"
  then show "isDigit c" by (auto simp: isDigit_def code_def)
qed

lemma canonicalize_False [simp]: "canonicalize False c = c"
  by (simp add: canonicalize_def)

lemma exec_None_iff:
  "exec r ic (b, s) = None \<longleftrightarrow>
     (\<forall>pre rest. s = pre @ rest \<longrightarrow> ends r ic (if pre = [] then b else Some (last pre), rest) = [])"
proof (induction s arbitrary: b)
  case Nil
  then show ?case by (auto split: list.splits)
next
  case (Cons c cs)
  show ?case
  proof
    assume n: "exec r ic (b, c # cs) = None"
    then have e0: "ends r ic (b, c # cs) = []" by (auto split: list.splits)
    with n have "exec r ic (Some c, cs) = None" by simp
    then have ih: "\<And>pre rest. cs = pre @ rest \<Longrightarrow>
        ends r ic (if pre = [] then Some c else Some (last pre), rest) = []"
      using Cons.IH by blast
    show "\<forall>pre rest. c # cs = pre @ rest \<longrightarrow>
        ends r ic (if pre = [] then b else Some (last pre), rest) = []"
    proof (intro allI impI)
      fix pre rest assume eq: "c # cs = pre @ rest"
      show "ends r ic (if pre = [] then b else Some (last pre), rest) = []"
      proof (cases pre)
        case Nil
        with eq e0 show ?thesis by simp
      next
        case (Cons p pre')
        with eq have "p = c" "cs = pre' @ rest" by simp_all
        with ih[of pre' rest] Cons show ?thesis by (cases "pre' = []") simp_all
      qed
    qed
  next
    assume a: "\<forall>pre rest. c # cs = pre @ rest \<longrightarrow>
        ends r ic (if pre = [] then b else Some (last pre), rest) = []"
    from a[rule_format, of "[]" "c # cs"] have e0: "ends r ic (b, c # cs) = []" by simp
    have "\<forall>pre rest. cs = pre @ rest \<longrightarrow>
        ends r ic (if pre = [] then Some c else Some (last pre), rest) = []"
    proof (intro allI impI)
      fix pre rest assume eq: "cs = pre @ rest"
      from a[rule_format, of "c # pre" rest] eq
      show "ends r ic (if pre = [] then Some c else Some (last pre), rest) = []"
        by (cases "pre = []") simp_all
    qed
    then have "exec r ic (Some c, cs) = None" using Cons.IH by blast
    with e0 show "exec r ic (b, c # cs) = None" by simp
  qed
qed

lemma test_iff:
  "test r ic s \<longleftrightarrow>
     (\<exists>pre rest. s = pre @ rest \<and> ends r ic (if pre = [] then None else Some (last pre), rest) \<noteq> [])"
  unfolding test_def exec_None_iff by blast

lemma matchGlobal_None_iff: "matchGlobal r ic s \<noteq> None \<longleftrightarrow> test r ic s"
  by (auto simp: matchGlobal_def test_def split: list.splits option.splits)

lemma ends_Str_iff: "ends (Str w) False (b, rest) \<noteq> [] \<longleftrightarrow> prefix w rest"
proof (induction w arbitrary: b rest rule: Str.induct)
  case 1
  then show ?case by simp
next
  case (2 c)
  then show ?case by (cases rest) auto
next
  case (3 c d cs)
  then show ?case by (cases rest) auto
qed

lemma test_Str: "test (Str w) False s \<longleftrightarrow> sublist w s"
proof -
  have "test (Str w) False s \<longleftrightarrow> (\<exists>pre rest. s = pre @ rest \<and> prefix w rest)"
    unfolding test_iff ends_Str_iff by blast
  also have "\<dots> \<longleftrightarrow> sublist w s"
    by (auto simp: sublist_def prefix_def)
  finally show ?thesis .
qed

lemma ends_Alts_iff:
  "rs \<noteq> [] \<Longrightarrow> ends (Alts rs) ic cur \<noteq> [] \<longleftrightarrow> (\<exists>r\<in>set rs. ends r ic cur \<noteq> [])"
  by (induction rs rule: Alts.induct) auto

lemma test_Alts: "rs \<noteq> [] \<Longrightarrow> test (Alts rs) ic s \<longleftrightarrow> list_ex (\<lambda>r. test r ic s) rs"
  unfolding test_iff list_ex_iff by (auto simp: ends_Alts_iff)

lemma rounds_self: "cur \<in> set (rounds g step n cur)"
  by (cases n) (auto simp: Let_def)

lemma rounds_digits:
  "e \<in> set (rounds g (consume isDigit) n cur) \<Longrightarrow>
     \<exists>ds. snd cur = ds @ snd e \<and> (\<forall>d\<in>set ds. isDigit d) \<and>
          fst e = (if ds = [] then fst cur else Some (last ds))"
proof (induction n arbitrary: cur)
  case 0
  then show ?case by auto
next
  case (Suc n)
  obtain b rest where cur: "cur = (b, rest)" by (cases cur)
  from Suc.prems have "e = cur \<or>
      (\<exists>nxt\<in>set (consume isDigit cur). e \<in> set (rounds g (consume isDigit) n nxt))"
    by (auto simp: Let_def split: if_splits)
  then show ?case
  proof
    assume "e = cur"
    then show ?thesis by auto
  next
    assume "\<exists>nxt\<in>set (consume isDigit cur). e \<in> set (rounds g (consume isDigit) n nxt)"
    then obtain nxt where nxt: "nxt \<in> set (consume isDigit cur)"
      and e: "e \<in> set (rounds g (consume isDigit) n nxt)" by blast
    from nxt cur obtain d rest' where r: "rest = d # rest'" "isDigit d" "nxt = (Some d, rest')"
      by (cases rest) (auto split: if_splits)
    from Suc.IH[OF e] r obtain ds where ds: "rest' = ds @ snd e" "\<forall>d\<in>set ds. isDigit d"
      "fst e = (if ds = [] then Some d else Some (last ds))" by auto
    show ?thesis
      by (rule exI[of _ "d # ds"]) (use cur r ds in auto)
  qed
qed

lemma atomMatches_Digit: "atomMatches ic Digit = isDigit"
  by (rule ext) simp

lemma atomMatches_Ch: "atomMatches False (Ch c) = (\<lambda>x. c = x)"
  by (rule ext) simp

lemma concat_map_nonempty: "x \<in> set xs \<Longrightarrow> f x \<noteq> [] \<Longrightarrow> concat (map f xs) \<noteq> []"
  by auto

lemma ends_digits_then_D:
  assumes "ends (Cat (Plus (Atom Digit)) (Str [c])) False (b, rest) \<noteq> []"
  shows "\<exists>d. isDigit d \<and> sublist [d, c] rest"
proof -
  from assms obtain e where e: "e \<in> set (ends (Plus (Atom Digit)) False (b, rest))"
    and c: "ends (Atom (Ch c)) False e \<noteq> []" by auto
  from e obtain nxt n where nxt: "nxt \<in> set (consume isDigit (b, rest))"
    and r: "e \<in> set (rounds True (consume isDigit) n nxt)"
    by (auto simp: Plus_def atomMatches_Digit)
  from nxt obtain d rest' where d: "rest = d # rest'" "isDigit d" "nxt = (Some d, rest')"
    by (cases rest) (auto split: if_splits)
  from rounds_digits[OF r] d obtain ds where ds: "rest' = ds @ snd e" "\<forall>x\<in>set ds. isDigit x"
    by auto
  from c obtain rest'' where e2: "snd e = c # rest''"
    by (cases e, cases "snd e") (auto split: if_splits)
  have "last (d # ds) \<in> set (d # ds)" by (rule last_in_set) simp
  then have "isDigit (last (d # ds))" using d ds by (auto simp del: last.simps)
  moreover have "rest = butlast (d # ds) @ [last (d # ds), c] @ rest''"
    using d ds e2 by (simp del: last.simps butlast.simps add: append_butlast_last_id[symmetric] flip: append_assoc)
  then have "sublist [last (d # ds), c] rest" unfolding sublist_def by blast
  ultimately show ?thesis by blast
qed

lemma ends_digits_then_I:
  assumes "isDigit d"
  shows "ends (Cat (Plus (Atom Digit)) (Str [c])) False (b, d # c # rest) \<noteq> []"
proof -
  have 1: "(Some d, c # rest) \<in> set (ends (Plus (Atom Digit)) False (b, d # c # rest))"
    using assms by (simp add: Plus_def atomMatches_Digit rounds_self)
  have 2: "ends (Str [c]) False (Some d, c # rest) \<noteq> []" by simp
  show ?thesis using concat_map_nonempty[of _ _ "ends (Str [c]) False", OF 1 2] by simp
qed

lemma test_digits_then:
  "test (Cat (Plus (Atom Digit)) (Str [c])) False s \<longleftrightarrow> list_ex (\<lambda>d. sublist [d, c] s) ''0123456789''"
proof
  assume "test (Cat (Plus (Atom Digit)) (Str [c])) False s"
  then obtain pre rest b where s: "s = pre @ rest"
    and e: "ends (Cat (Plus (Atom Digit)) (Str [c])) False (b, rest) \<noteq> []"
    unfolding test_iff by blast
  from ends_digits_then_D[OF e] obtain d where d: "isDigit d" "sublist [d, c] rest" by blast
  from d(2) s have "sublist [d, c] s" by (auto simp: sublist_def) (metis append_assoc)
  with d(1) show "list_ex (\<lambda>d. sublist [d, c] s) ''0123456789''"
    unfolding list_ex_iff isDigit_set by blast
next
  assume "list_ex (\<lambda>d. sublist [d, c] s) ''0123456789''"
  then obtain d where d: "isDigit d" "sublist [d, c] s"
    unfolding list_ex_iff isDigit_set by blast
  then obtain pre suf where s: "s = pre @ d # c # suf" by (auto simp: sublist_def)
  show "test (Cat (Plus (Atom Digit)) (Str [c])) False s"
    unfolding test_iff
    by (rule exI[of _ pre], rule exI[of _ "d # c # suf"]) (use s ends_digits_then_I[OF d(1)] in blast)
qed

lemma rounds_shrinks:
  "e \<in> set (rounds g step n cur) \<Longrightarrow> length (snd e) \<le> length (snd cur)"
proof (induction n arbitrary: cur)
  case 0
  then show ?case by simp
next
  case (Suc n)
  from Suc.prems have "e = cur \<or>
      (\<exists>nxt\<in>set (step cur). length (snd nxt) < length (snd cur) \<and> e \<in> set (rounds g step n nxt))"
    by (auto simp: Let_def split: if_splits)
  then show ?case using Suc.IH by fastforce
qed

lemma consume_shrinks: "e \<in> set (consume accepts cur) \<Longrightarrow> length (snd e) \<le> length (snd cur)"
  by (cases cur, cases "snd cur") (auto split: if_splits)

lemma ends_shrinks: "e \<in> set (ends r ic cur) \<Longrightarrow> length (snd e) \<le> length (snd cur)"
proof (induction r arbitrary: cur e)
  case (Cat r q)
  then obtain m where "m \<in> set (ends r ic cur)" "e \<in> set (ends q ic m)" by auto
  with Cat.IH show ?case by (meson order_trans)
qed (auto dest: consume_shrinks rounds_shrinks split: if_splits)

lemma exec_bounds:
  "exec r ic cur = Some (start, end) \<Longrightarrow>
     length (snd end) \<le> length (snd start) \<and> length (snd start) \<le> length (snd cur)"
proof (induction r ic cur rule: exec.induct)
  case (1 r ic before)
  show ?case
  proof (cases "ends r ic (before, [])")
    case Nil
    with 1 show ?thesis by auto
  next
    case (Cons e es)
    with "1.prems" have "start = (before, [])" "end = e" by auto
    moreover have "e \<in> set (ends r ic (before, []))" using Cons by simp
    ultimately show ?thesis using ends_shrinks[of e r ic "(before, [])"] by simp
  qed
next
  case (2 r ic before c cs)
  show ?case
  proof (cases "ends r ic (before, c # cs)")
    case Nil
    with 2 show ?thesis by auto
  next
    case (Cons e es)
    with "2.prems" have "start = (before, c # cs)" "end = e" by auto
    moreover have "e \<in> set (ends r ic (before, c # cs))" using Cons by simp
    ultimately show ?thesis using ends_shrinks[of e r ic "(before, c # cs)"] by simp
  qed
qed

text \<open>The fuel of the three walks is enough: more fuel gives the same result.\<close>

lemma rounds_fuel:
  "length (snd cur) \<le> n \<Longrightarrow> rounds g step n cur = rounds g step (length (snd cur)) cur"
proof (induction n arbitrary: cur rule: less_induct)
  case (less n)
  show ?case
  proof (cases n)
    case 0
    with less.prems show ?thesis by simp
  next
    case (Suc m)
    show ?thesis
    proof (cases "length (snd cur)")
      case 0
      then show ?thesis by (simp add: Suc Let_def)
    next
      case (Suc k)
      have k: "k \<le> m" using less.prems \<open>n = Suc m\<close> Suc by simp
      have "rounds g step m nxt = rounds g step k nxt"
        if "length (snd nxt) < length (snd cur)" for nxt
      proof -
        from that Suc have l: "length (snd nxt) \<le> k" by simp
        have "rounds g step m nxt = rounds g step (length (snd nxt)) nxt"
          using less.IH[of m nxt] l k \<open>n = Suc m\<close> by simp
        moreover have "rounds g step k nxt = rounds g step (length (snd nxt)) nxt"
          using less.IH[of k nxt] l k \<open>n = Suc m\<close> by simp
        ultimately show ?thesis by simp
      qed
      then have "map (rounds g step m) (filter (\<lambda>nxt. length (snd nxt) < length (snd cur)) (step cur))
          = map (rounds g step k) (filter (\<lambda>nxt. length (snd nxt) < length (snd cur)) (step cur))"
        by (intro map_cong refl) simp
      then have "rounds g step (Suc m) cur = rounds g step (Suc k) cur"
        by (simp only: rounds.simps Let_def)
      then show ?thesis by (simp only: \<open>n = Suc m\<close> Suc)
    qed
  qed
qed

lemma matched_nonempty: "matched start end \<noteq> [] \<Longrightarrow> length (snd end) < length (snd start)"
  by (auto simp: matched_def)

lemma matchesFrom_fuel:
  "length (snd cur) < n \<Longrightarrow>
     matchesFrom n r ic cur = matchesFrom (Suc (length (snd cur))) r ic cur"
proof (induction "length (snd cur)" arbitrary: cur n rule: less_induct)
  case less
  define k where "k = length (snd cur)"
  from less.prems obtain m where n: "n = Suc m" and km: "k \<le> m"
    unfolding k_def by (cases n) auto
  have same: "matchesFrom m r ic c' = matchesFrom k r ic c'" if "length (snd c') < k" for c'
  proof -
    have "matchesFrom m r ic c' = matchesFrom (Suc (length (snd c'))) r ic c'"
      using less.hyps[of c' m] that km unfolding k_def by simp
    moreover have "matchesFrom k r ic c' = matchesFrom (Suc (length (snd c'))) r ic c'"
      using less.hyps[of c' k] that unfolding k_def by simp
    ultimately show ?thesis by simp
  qed
  have "matchesFrom (Suc m) r ic cur = matchesFrom (Suc k) r ic cur"
  proof (cases "exec r ic cur")
    case None
    then show ?thesis by simp
  next
    case (Some p)
    obtain start "end" where p: "p = (start, end)" by (cases p)
    from exec_bounds[of r ic cur start "end"] Some p
    have b: "length (snd end) \<le> length (snd start)" "length (snd start) \<le> k"
      unfolding k_def by simp_all
    show ?thesis
    proof (cases "matched start end = []")
      case True
      obtain before rest where e: "end = (before, rest)" by (cases "end")
      show ?thesis
      proof (cases rest)
        case Nil
        with Some p True e show ?thesis by simp
      next
        case (Cons c cs)
        with b e have "length (snd (Some c, cs)) < k" by simp
        from same[OF this] Some p True e Cons show ?thesis by simp
      qed
    next
      case False
      from matched_nonempty[OF False] b have "length (snd end) < k" by simp
      from same[OF this] Some p False show ?thesis by simp
    qed
  qed
  then show ?case unfolding n k_def .
qed

lemma replaceFrom_fuel:
  "length (snd cur) < n \<Longrightarrow>
     replaceFrom n r ic replacement cur = replaceFrom (Suc (length (snd cur))) r ic replacement cur"
proof (induction "length (snd cur)" arbitrary: cur n rule: less_induct)
  case less
  define k where "k = length (snd cur)"
  from less.prems obtain m where n: "n = Suc m" and km: "k \<le> m"
    unfolding k_def by (cases n) auto
  have same: "replaceFrom m r ic replacement c' = replaceFrom k r ic replacement c'"
    if "length (snd c') < k" for c'
  proof -
    have "replaceFrom m r ic replacement c' = replaceFrom (Suc (length (snd c'))) r ic replacement c'"
      using less.hyps[of c' m] that km unfolding k_def by simp
    moreover have "replaceFrom k r ic replacement c' = replaceFrom (Suc (length (snd c'))) r ic replacement c'"
      using less.hyps[of c' k] that unfolding k_def by simp
    ultimately show ?thesis by simp
  qed
  have "replaceFrom (Suc m) r ic replacement cur = replaceFrom (Suc k) r ic replacement cur"
  proof (cases "exec r ic cur")
    case None
    then show ?thesis by simp
  next
    case (Some p)
    obtain start "end" where p: "p = (start, end)" by (cases p)
    from exec_bounds[of r ic cur start "end"] Some p
    have b: "length (snd end) \<le> length (snd start)" "length (snd start) \<le> k"
      unfolding k_def by simp_all
    show ?thesis
    proof (cases "matched start end = []")
      case True
      obtain before rest where e: "end = (before, rest)" by (cases "end")
      show ?thesis
      proof (cases rest)
        case Nil
        with Some p True e show ?thesis by simp
      next
        case (Cons c cs)
        with b e have "length (snd (Some c, cs)) < k" by simp
        from same[OF this] Some p True e Cons show ?thesis by simp
      qed
    next
      case False
      from matched_nonempty[OF False] b have "length (snd end) < k" by simp
      from same[OF this] Some p False show ?thesis by simp
    qed
  qed
  then show ?case unfolding n k_def .
qed

lemma test_at:
  "s = pre @ rest \<Longrightarrow> ends r ic (if pre = [] then None else Some (last pre), rest) \<noteq> [] \<Longrightarrow> test r ic s"
  unfolding test_iff by blast

lemma ends_Alts_I: "r \<in> set rs \<Longrightarrow> ends r ic cur \<noteq> [] \<Longrightarrow> ends (Alts rs) ic cur \<noteq> []"
proof -
  assume r: "r \<in> set rs" and e: "ends r ic cur \<noteq> []"
  from r have "rs \<noteq> []" by auto
  from ends_Alts_iff[OF this, of ic cur] r e show ?thesis by blast
qed

subsection \<open>The score\<close>

lemma impactPattern_iff: "matchGlobal impactPattern False t \<noteq> None \<longleftrightarrow> quantifiableImpact t"
  unfolding matchGlobal_None_iff impactPattern_def quantifiableImpact_def digitThen_def mentionsAny_def
  by (simp add: test_Alts test_digits_then test_Str del: Alts.simps Str.simps)

lemma leadershipPattern_iff: "matchGlobal leadershipPattern False t \<noteq> None \<longleftrightarrow> leadershipStem t"
  unfolding matchGlobal_None_iff leadershipPattern_def leadershipStem_def mentionsAny_def
  by (simp add: test_Alts test_Str del: Alts.simps Str.simps)

lemma educationPattern_iff: "matchGlobal educationPattern False t \<noteq> None \<longleftrightarrow> degreeKeyword t"
  unfolding matchGlobal_None_iff educationPattern_def degreeKeyword_def mentionsAny_def
  by (simp add: test_Alts test_Str del: Alts.simps Str.simps)

lemma if_bonus: "(if c then (a::int) + k else a) = a + (if c then k else 0)"
  by simp

lemma if_level:
  "(if p then (a::int) + 15 else if q then a + 10 else a + 5) =
     a + (if p then 15 else if q then 10 else 5)"
  by simp

lemma score_eq_cappedScore:
  "calculateContextualScore t role detected level = cappedScore t role detected level"
  unfolding calculateContextualScore_def cappedScore_def rawScore_def Let_def
    impactPattern_iff leadershipPattern_iff educationPattern_iff if_bonus if_level
  by (simp only: mult.commute[of _ 8])

lemma rawScore_lower: "55 \<le> rawScore t role detected level"
proof -
  have a: "(0::int) \<le> min (8 * int n) 30" for n by simp
  have b: "(5::int) \<le> (if p then 15 else if q then 10 else 5)" for p q by simp
  have c: "(0::int) \<le> (if p then k else 0)" if "0 \<le> k" for p k using that by simp
  have "(55::int) \<le> 50 + x + y + u + v + w"
    if "0 \<le> x" "5 \<le> y" "0 \<le> u" "0 \<le> v" "0 \<le> w" for x y u v w :: int
    using that by arith
  from this[OF a b c c c] show ?thesis
    unfolding rawScore_def by simp
qed

lemma cappedScore_lower: "55 \<le> cappedScore t role detected level"
  unfolding cappedScore_def using rawScore_lower[of t role detected level] by simp

lemma cappedScore_upper: "cappedScore t role detected level \<le> 100"
  unfolding cappedScore_def by (rule min.cobounded2)

text \<open>
  Claim C4. The score of the code is the sum that the claim describes with the leadership
  signal read as the four strings of the pattern (lemma \<open>score_eq_cappedScore\<close> above), and
  the verb form \<^verbatim>\<open>led\<close> is not among them. On the text \<^verbatim>\<open>led a team of 5\<close> the score has
  no leadership bonus, whatever the role, the skills and the level: it is 55 with no skill
  and no level, where \<^verbatim>\<open>lead a team of 5\<close> gets 63. \<^const>\<open>detectContentElements\<close> finds
  leadership in the same text.
\<close>

theorem calculateContextualScore_misses_led:
  "calculateContextualScore ''led a team of 5'' ''Software Engineer'' [] [] = 55
   \<and> calculateContextualScore ''lead a team of 5'' ''Software Engineer'' [] [] = 63
   \<and> hasLeadership (detectContentElements ''led a team of 5'')
   \<and> calculateContextualScore ''led a team of 5'' role detected level
       = min (50
              + min (8 * int (length (filter (\<lambda>s. s \<in> set (getRoleSpecificSkills role)) detected))) 30
              + (if level = ''Senior-level'' then 15 else if level = ''Mid-level'' then 10 else 5))
           100"
proof (intro conjI)
  have q: "\<not> quantifiableImpact ''led a team of 5''" by code_simp
  have l: "\<not> leadershipStem ''led a team of 5''" by code_simp
  have d: "\<not> degreeKeyword ''led a team of 5''" by code_simp
  have q': "\<not> quantifiableImpact ''lead a team of 5''" by code_simp
  have l': "leadershipStem ''lead a team of 5''" by code_simp
  have d': "\<not> degreeKeyword ''lead a team of 5''" by code_simp
  show f: "calculateContextualScore ''led a team of 5'' role detected level
       = min (50
              + min (8 * int (length (filter (\<lambda>s. s \<in> set (getRoleSpecificSkills role)) detected))) 30
              + (if level = ''Senior-level'' then 15 else if level = ''Mid-level'' then 10 else 5))
           100" for role detected level
    unfolding score_eq_cappedScore cappedScore_def rawScore_def using q l d by simp
  show "calculateContextualScore ''led a team of 5'' ''Software Engineer'' [] [] = 55"
    unfolding f by simp
  show "calculateContextualScore ''lead a team of 5'' ''Software Engineer'' [] [] = 63"
    unfolding score_eq_cappedScore cappedScore_def rawScore_def using q' l' d' by simp
  have "ends (Cat (Str ''led'') ws1) True (None, ''led a team of 5'') \<noteq> []"
    by code_simp
  then have "ends leadershipElement True (None, ''led a team of 5'') \<noteq> []"
    unfolding leadershipElement_def by (rule ends_Alts_I[rotated]) simp
  then have "test leadershipElement True ([] @ ''led a team of 5'')"
    by (intro test_at[OF refl]) simp
  then show "hasLeadership (detectContentElements ''led a team of 5'')"
    by (simp add: detectContentElements_def)
qed

text \<open>
  Claim C10. Whatever the text, the role, the skills and the experience level, the empty
  level included, the sum before the clamp is at least 55, so the score lies between 55 and
  100 and clamping it to the range from 0 to 100 is cutting it at 100. Both ends are
  reached.
\<close>

theorem calculateContextualScore_range:
  "55 \<le> calculateContextualScore t role detected level
   \<and> calculateContextualScore t role detected level \<le> 100
   \<and> 55 \<le> rawScore t role detected level
   \<and> calculateContextualScore t role detected level
       = max 0 (min (rawScore t role detected level) 100)
   \<and> calculateContextualScore t role detected [] = min (rawScore t role detected []) 100
   \<and> calculateContextualScore [] [] [] [] = 55
   \<and> calculateContextualScore ''led 3x growth; certified'' ''backend developer''
        [''python'', ''java'', ''api'', ''redis''] ''Senior-level'' = 100"
proof (intro conjI)
  show "55 \<le> calculateContextualScore t role detected level"
    using cappedScore_lower[of t role detected level] by (simp only: score_eq_cappedScore)
  show "calculateContextualScore t role detected level \<le> 100"
    by (simp only: score_eq_cappedScore cappedScore_upper)
  show "55 \<le> rawScore t role detected level"
    by (rule rawScore_lower)
  show "calculateContextualScore t role detected level
       = max 0 (min (rawScore t role detected level) 100)"
    using rawScore_lower[of t role detected level]
    by (simp only: score_eq_cappedScore cappedScore_def)
  show "calculateContextualScore t role detected [] = min (rawScore t role detected []) 100"
    by (simp only: score_eq_cappedScore cappedScore_def)
  show "calculateContextualScore [] [] [] [] = 55"
    by code_simp
  show "calculateContextualScore ''led 3x growth; certified'' ''backend developer''
        [''python'', ''java'', ''api'', ''redis''] ''Senior-level'' = 100"
    by code_simp
qed

text \<open>
  Claim C1. On the text \<^verbatim>\<open>increased revenue by 25% and led a team of 5\<close> for the role
  \<^verbatim>\<open>Software Engineer\<close>, \<^const>\<open>detectContentElements\<close> sets both flags, and the score gets 10
  for the quantified impact; it gets nothing for leadership, since none of \<^verbatim>\<open>lead\<close>,
  \<^verbatim>\<open>manage\<close>, \<^verbatim>\<open>mentor\<close> and \<^verbatim>\<open>supervise\<close> occurs in \<^verbatim>\<open>led a team\<close>. With no skill
  detected and no experience level the score is 65, where both bonuses would give 73.
\<close>

theorem scenario_led_a_team:
  "hasQuantifiableResults (detectContentElements ''increased revenue by 25% and led a team of 5'')
   \<and> hasLeadership (detectContentElements ''increased revenue by 25% and led a team of 5'')
   \<and> quantifiableImpact ''increased revenue by 25% and led a team of 5''
   \<and> \<not> leadershipStem ''increased revenue by 25% and led a team of 5''
   \<and> calculateContextualScore ''increased revenue by 25% and led a team of 5''
        ''Software Engineer'' detected level
       = min (50 + min (8 * int (length (filter (\<lambda>s. s \<in> set softwareSkills) detected))) 30
              + (if level = ''Senior-level'' then 15 else if level = ''Mid-level'' then 10 else 5)
              + 10) 100
   \<and> calculateContextualScore ''increased revenue by 25% and led a team of 5''
        ''Software Engineer'' [] [] = 65"
proof (intro conjI)
  have "ends (Cat digits (Str ''%'')) True (Some (CHR '' ''), ''25% and led a team of 5'') \<noteq> []"
    by code_simp
  then have "ends quantifiablePattern True (Some (CHR '' ''), ''25% and led a team of 5'') \<noteq> []"
    unfolding quantifiablePattern_def by (rule ends_Alts_I[rotated]) simp
  then have "test quantifiablePattern True (''increased revenue by '' @ ''25% and led a team of 5'')"
    by (intro test_at[OF refl]) simp
  then show "hasQuantifiableResults (detectContentElements ''increased revenue by 25% and led a team of 5'')"
    by (simp add: detectContentElements_def)
  have "ends (Cat (Str ''led'') ws1) True (Some (CHR '' ''), ''led a team of 5'') \<noteq> []"
    by code_simp
  then have "ends leadershipElement True (Some (CHR '' ''), ''led a team of 5'') \<noteq> []"
    unfolding leadershipElement_def by (rule ends_Alts_I[rotated]) simp
  then have "test leadershipElement True (''increased revenue by 25% and '' @ ''led a team of 5'')"
    by (intro test_at[OF refl]) simp
  then show "hasLeadership (detectContentElements ''increased revenue by 25% and led a team of 5'')"
    by (simp add: detectContentElements_def)
  show q: "quantifiableImpact ''increased revenue by 25% and led a team of 5''"
    by code_simp
  show l: "\<not> leadershipStem ''increased revenue by 25% and led a team of 5''"
    by code_simp
  have d: "\<not> degreeKeyword ''increased revenue by 25% and led a team of 5''"
    by code_simp
  have r: "getRoleSpecificSkills ''Software Engineer'' = softwareSkills"
    by code_simp
  show f: "calculateContextualScore ''increased revenue by 25% and led a team of 5''
        ''Software Engineer'' detected level
       = min (50 + min (8 * int (length (filter (\<lambda>s. s \<in> set softwareSkills) detected))) 30
              + (if level = ''Senior-level'' then 15 else if level = ''Mid-level'' then 10 else 5)
              + 10) 100" for detected level
    unfolding score_eq_cappedScore cappedScore_def rawScore_def r using q l d by simp
  show "calculateContextualScore ''increased revenue by 25% and led a team of 5''
        ''Software Engineer'' [] [] = 65"
    unfolding f by simp
qed

subsection \<open>The inference client\<close>

lemma attempts_exhausted: "attempts net model prompt (Suc (Suc 0)) hist = (None, hist)"
  by (simp add: attempts.simps[of net model prompt "Suc (Suc 0)" hist] maxRetries_def)

lemma attempts_loading:
  assumes "attempt < 2" and "net hist (hfRequest model prompt) = Responded 503 body"
  shows "attempts net model prompt attempt hist =
         attempts net model prompt (attempt + 1)
           (hist @ [Fetch (hfRequest model prompt), Sleep (3000 * (attempt + 1))])"
  using assms
  by (simp add: attempts.simps[of net model prompt attempt hist] maxRetries_def ok_def Let_def)

lemma attempts_failed_status:
  assumes "attempt < 2" and "net hist (hfRequest model prompt) = Responded status body"
    and "\<not> ok status" and "status \<noteq> 503"
  shows "attempts net model prompt attempt hist = (None, hist @ [Fetch (hfRequest model prompt)])"
  using assms
  by (simp add: attempts.simps[of net model prompt attempt hist] maxRetries_def Let_def)

lemma attempts_rejected_first:
  assumes "net hist (hfRequest model prompt) = Rejected msg"
  shows "attempts net model prompt 0 hist =
         attempts net model prompt 1 (hist @ [Fetch (hfRequest model prompt), Sleep 1500])"
  using assms
  by (simp add: attempts.simps[of net model prompt 0 hist] maxRetries_def Let_def)

lemma attempts_rejected_last:
  assumes "net hist (hfRequest model prompt) = Rejected msg"
  shows "attempts net model prompt 1 hist = (None, hist @ [Fetch (hfRequest model prompt)])"
  using assms
  by (simp add: attempts.simps[of net model prompt "Suc 0" hist] maxRetries_def Let_def)


lemma attempts_last_fetches:
  "length (filter isFetch (snd (attempts net model prompt 1 hist))) = length (filter isFetch hist) + 1"
  by (simp add: attempts.simps[of net model prompt "Suc 0" hist] maxRetries_def Let_def
        attempts_exhausted split: fetched.splits sum.splits)

lemma attempts_first_fetches:
  "length (filter isFetch (snd (attempts net model prompt 0 hist))) \<le> length (filter isFetch hist) + 2
   \<and> length (filter isFetch hist) + 1 \<le> length (filter isFetch (snd (attempts net model prompt 0 hist)))"
  using attempts_last_fetches[of net model prompt]
  by (simp add: attempts.simps[of net model prompt 0 hist] maxRetries_def Let_def
        split: fetched.splits sum.splits)

text \<open>
  Claim C2. When every answer is HTTP 503 the call issues two requests, waits 3000 ms after
  the first and 6000 ms after the second, and returns \<^verbatim>\<open>null\<close>. An attempt that is answered
  by a status outside 200-299 other than 503 returns \<^verbatim>\<open>null\<close> at once, with nothing after
  its request. When \<^verbatim>\<open>fetch\<close> throws on the first attempt the call waits 1500 ms and makes
  the second attempt; when it throws on the second, the call returns \<^verbatim>\<open>null\<close> after that
  request. No run issues more than two requests.
\<close>

theorem callHuggingFaceAPI_retries:
  "((\<forall>h. \<exists>body. net h (hfRequest model prompt) = Responded 503 body) \<longrightarrow>
      callHuggingFaceAPI net model prompt hist =
        (None, hist @ [Fetch (hfRequest model prompt), Sleep 3000,
                       Fetch (hfRequest model prompt), Sleep 6000]))
   \<and> (attempt < maxRetries \<and> net h (hfRequest model prompt) = Responded status body \<and>
       \<not> ok status \<and> status \<noteq> 503 \<longrightarrow>
      attempts net model prompt attempt h = (None, h @ [Fetch (hfRequest model prompt)]))
   \<and> ((\<forall>h. \<exists>msg. net h (hfRequest model prompt) = Rejected msg) \<longrightarrow>
      callHuggingFaceAPI net model prompt hist =
        (None, hist @ [Fetch (hfRequest model prompt), Sleep 1500,
                       Fetch (hfRequest model prompt)]))
   \<and> (net hist (hfRequest model prompt) = Rejected msg \<longrightarrow>
      callHuggingFaceAPI net model prompt hist =
        attempts net model prompt 1 (hist @ [Fetch (hfRequest model prompt), Sleep 1500]))
   \<and> (net h (hfRequest model prompt) = Rejected msg \<longrightarrow>
      attempts net model prompt 1 h = (None, h @ [Fetch (hfRequest model prompt)]))
   \<and> length (filter isFetch (snd (callHuggingFaceAPI net model prompt hist)))
       \<le> length (filter isFetch hist) + 2"
proof (intro conjI impI)
  let ?r = "hfRequest model prompt"
  {
    assume a: "\<forall>h. \<exists>body. net h ?r = Responded 503 body"
    from a obtain b0 where b0: "net hist ?r = Responded 503 b0" by blast
    from a obtain b1 where b1: "net (hist @ [Fetch ?r, Sleep (3000 * (0 + 1))]) ?r = Responded 503 b1"
      by blast
    have "attempts net model prompt 0 hist =
        attempts net model prompt (0 + 1) (hist @ [Fetch ?r, Sleep (3000 * (0 + 1))])"
      using attempts_loading[of 0 net hist model prompt b0] b0 by simp
    also have "\<dots> = attempts net model prompt (0 + 1 + 1)
        ((hist @ [Fetch ?r, Sleep (3000 * (0 + 1))]) @ [Fetch ?r, Sleep (3000 * (0 + 1 + 1))])"
      using attempts_loading[of "0 + 1" net "hist @ [Fetch ?r, Sleep (3000 * (0 + 1))]" model prompt b1] b1
      by simp
    also have "\<dots> = (None, hist @ [Fetch ?r, Sleep 3000, Fetch ?r, Sleep 6000])"
      using attempts_exhausted by simp
    finally show "callHuggingFaceAPI net model prompt hist =
        (None, hist @ [Fetch ?r, Sleep 3000, Fetch ?r, Sleep 6000])"
      by (simp add: callHuggingFaceAPI_def)
  }
  {
    assume "attempt < maxRetries \<and> net h ?r = Responded status body \<and> \<not> ok status \<and> status \<noteq> 503"
    then show "attempts net model prompt attempt h = (None, h @ [Fetch ?r])"
      using attempts_failed_status[of attempt net h model prompt status body]
      by (simp add: maxRetries_def)
  }
  {
    assume a: "\<forall>h. \<exists>msg. net h ?r = Rejected msg"
    from a obtain m0 where m0: "net hist ?r = Rejected m0" by blast
    from a obtain m1 where m1: "net (hist @ [Fetch ?r, Sleep 1500]) ?r = Rejected m1" by blast
    show "callHuggingFaceAPI net model prompt hist = (None, hist @ [Fetch ?r, Sleep 1500, Fetch ?r])"
      unfolding callHuggingFaceAPI_def
        attempts_rejected_first[of net hist model prompt m0, OF m0]
        attempts_rejected_last[of net "hist @ [Fetch ?r, Sleep 1500]" model prompt m1, OF m1]
      by simp
  }
  {
    assume "net hist ?r = Rejected msg"
    then show "callHuggingFaceAPI net model prompt hist =
        attempts net model prompt 1 (hist @ [Fetch ?r, Sleep 1500])"
      unfolding callHuggingFaceAPI_def by (rule attempts_rejected_first[of net hist model prompt msg])
  }
  {
    assume "net h ?r = Rejected msg"
    then show "attempts net model prompt 1 h = (None, h @ [Fetch ?r])"
      by (rule attempts_rejected_last[of net h model prompt msg])
  }
  show "length (filter isFetch (snd (callHuggingFaceAPI net model prompt hist)))
       \<le> length (filter isFetch hist) + 2"
    unfolding callHuggingFaceAPI_def using attempts_first_fetches[of net model prompt hist] by blast
qed

theorem callHuggingFaceAPI_retries_witness:
  "callHuggingFaceAPI (\<lambda>h r. Responded 503 (Inl [])) ''m'' ''p'' [] =
     (None, [Fetch (hfRequest ''m'' ''p''), Sleep 3000, Fetch (hfRequest ''m'' ''p''), Sleep 6000])
   \<and> attempts (\<lambda>h r. Responded 404 (Inl [])) ''m'' ''p'' 0 [] =
       (None, [Fetch (hfRequest ''m'' ''p'')])
   \<and> callHuggingFaceAPI (\<lambda>h r. Rejected ''offline'') ''m'' ''p'' [] =
       (None, [Fetch (hfRequest ''m'' ''p''), Sleep 1500, Fetch (hfRequest ''m'' ''p'')])
   \<and> attempts (\<lambda>h r. Rejected ''offline'') ''m'' ''p'' 1 [] =
       (None, [Fetch (hfRequest ''m'' ''p'')])"
  using callHuggingFaceAPI_retries[where net = "\<lambda>h r. Responded 503 (Inl [])" and model = "''m''"
      and prompt = "''p''" and hist = "[]"]
    callHuggingFaceAPI_retries[where net = "\<lambda>h r. Responded 404 (Inl [])" and model = "''m''"
      and prompt = "''p''" and attempt = 0 and h = "[]" and status = 404 and body = "Inl []"]
    callHuggingFaceAPI_retries[where net = "\<lambda>h r. Rejected ''offline''" and model = "''m''"
      and prompt = "''p''" and hist = "[]" and h = "[]" and msg = "''offline''"]
  by (simp add: ok_def maxRetries_def)

subsection \<open>The fallback report\<close>

text \<open>
  Claim C3, as stated, gives the fallback report an empty list of contextual insights. The
  report that \<^const>\<open>getResumeImprovementsWith\<close> returns for an analysis that throws has one
  insight.
\<close>

theorem fallback_insights_counterexample:
  "contextual_insights
     (fst (getResumeImprovementsWith (\<lambda>net t role hist. (Inl (Error ''boom''), hist))
             (\<lambda>h r. Rejected []) ''resume'' ''Software Engineer'' [])) \<noteq> []"
  by (simp add: getResumeImprovementsWith_def fallbackReport_def)

text \<open>
  Claim C3, amended. When the analysis throws, whatever the exception,
  \<^const>\<open>getResumeImprovementsWith\<close> returns the fixed report with score 60, one strength, one
  improvement of priority Medium and category System, no missing element, no advice, and
  the one insight \<^verbatim>\<open>Analysis will be available shortly\<close>.
\<close>

theorem getResumeImprovements_fallback:
  assumes "analyze net resumeText predictedRole hist = (Inl thrown, hist1)"
  shows "getResumeImprovementsWith analyze net resumeText predictedRole hist =
     (\<lparr>score = 60,
       strengths = [''Resume submitted for analysis''],
       improvements =
         [\<lparr>priority = Medium,
           suggestion = ''AI analysis is temporarily unavailable. Please try again later.'',
           category = ''System''\<rparr>],
       missing_elements = [],
       role_specific_advice = [],
       contextual_insights = [''Analysis will be available shortly'']\<rparr>, hist1)"
  using assms by (simp add: getResumeImprovementsWith_def fallbackReport_def)

theorem getResumeImprovements_fallback_witness:
  "getResumeImprovementsWith (\<lambda>net t role hist. (Inl (Error ''boom''), hist))
     (\<lambda>h r. Rejected []) ''resume'' ''Software Engineer'' [] =
     (\<lparr>score = 60,
       strengths = [''Resume submitted for analysis''],
       improvements =
         [\<lparr>priority = Medium,
           suggestion = ''AI analysis is temporarily unavailable. Please try again later.'',
           category = ''System''\<rparr>],
       missing_elements = [],
       role_specific_advice = [],
       contextual_insights = [''Analysis will be available shortly'']\<rparr>, [])"
  by (rule getResumeImprovements_fallback) simp

subsection \<open>The prediction client\<close>

lemma atomMatches_Space: "atomMatches ic Space = isWhiteSpace"
  by (rule ext) simp

lemma rounds_white_space:
  "length cs \<le> n \<Longrightarrow>
     rounds True (consume isWhiteSpace) n (p, cs) \<noteq> [] \<and>
     snd (hd (rounds True (consume isWhiteSpace) n (p, cs))) = dropWhile isWhiteSpace cs"
proof (induction cs arbitrary: p n)
  case Nil
  then show ?case by (cases n) (simp_all add: Let_def)
next
  case (Cons c cs)
  then obtain m where n: "n = Suc m" and m: "length cs \<le> m" by (cases n) auto
  show ?case
  proof (cases "isWhiteSpace c")
    case True
    from Cons.IH[OF m, of "Some c"] True show ?thesis
      by (simp add: n Let_def)
  next
    case False
    then show ?thesis by (simp add: n Let_def)
  qed
qed

lemma ends_white_space:
  "ends (Plus (Atom Space)) False (b, s) =
     (case s of
        [] \<Rightarrow> []
      | c # cs \<Rightarrow> if isWhiteSpace c then rounds True (consume isWhiteSpace) (length cs) (Some c, cs) else [])"
  by (cases s) (simp_all add: Plus_def atomMatches_Space)

lemma exec_white_space_None:
  "(\<forall>c\<in>set s. \<not> isWhiteSpace c) \<Longrightarrow> exec (Plus (Atom Space)) False (b, s) = None"
  by (induction s arbitrary: b) (simp_all add: ends_white_space del: ends.simps)

lemma exec_white_space_Some:
  "\<exists>c\<in>set s. isWhiteSpace c \<Longrightarrow>
     \<exists>start end. exec (Plus (Atom Space)) False (b, s) = Some (start, end) \<and>
       snd start = dropWhile (\<lambda>c. \<not> isWhiteSpace c) s \<and>
       snd end = dropWhile isWhiteSpace (snd start)"
proof (induction s arbitrary: b)
  case Nil
  then show ?case by simp
next
  case (Cons c cs)
  show ?case
  proof (cases "isWhiteSpace c")
    case True
    from rounds_white_space[of cs "length cs" "Some c"]
    obtain e es where r: "rounds True (consume isWhiteSpace) (length cs) (Some c, cs) = e # es"
      and e: "snd e = dropWhile isWhiteSpace cs"
      by (cases "rounds True (consume isWhiteSpace) (length cs) (Some c, cs)") auto
    show ?thesis using True r e by (simp add: ends_white_space del: ends.simps)
  next
    case False
    with Cons.prems have "\<exists>c\<in>set cs. isWhiteSpace c" by auto
    from Cons.IH[OF this, of "Some c"] False show ?thesis
      by (simp add: ends_white_space del: ends.simps)
  qed
qed

lemma collapse_no_white_space: "(\<forall>c\<in>set s. \<not> isWhiteSpace c) \<Longrightarrow> collapseWhiteSpace s = s"
  by (induction s) auto

lemma collapse_skip:
  "collapseWhiteSpace s =
     takeWhile (\<lambda>c. \<not> isWhiteSpace c) s @ collapseWhiteSpace (dropWhile (\<lambda>c. \<not> isWhiteSpace c) s)"
  by (induction s) auto

lemma replace_white_space:
  "replaceFrom (Suc (length s)) (Plus (Atom Space)) False '' '' (b, s) = collapseWhiteSpace s"
proof (induction "length s" arbitrary: s b rule: less_induct)
  case less
  show ?case
  proof (cases "\<exists>c\<in>set s. isWhiteSpace c")
    case False
    then have "\<forall>c\<in>set s. \<not> isWhiteSpace c" by blast
    then show ?thesis
      by (simp add: exec_white_space_None collapse_no_white_space del: ends.simps)
  next
    case True
    from exec_white_space_Some[OF True, of b] obtain start "end"
      where ex: "exec (Plus (Atom Space)) False (b, s) = Some (start, end)"
        and st: "snd start = dropWhile (\<lambda>c. \<not> isWhiteSpace c) s"
        and en: "snd end = dropWhile isWhiteSpace (snd start)" by blast
    from True have "dropWhile (\<lambda>c. \<not> isWhiteSpace c) s \<noteq> []" by (simp add: dropWhile_eq_Nil_conv)
    then obtain c cs where s1: "dropWhile (\<lambda>c. \<not> isWhiteSpace c) s = c # cs" and c: "isWhiteSpace c"
      by (metis (mono_tags, lifting) hd_dropWhile list.exhaust_sel)
    have en': "snd end = dropWhile isWhiteSpace cs" using en st s1 c by simp
    have l1: "length (snd start) \<le> length s" unfolding st by (rule length_dropWhile_le)
    have l2: "length (snd end) < length (snd start)"
      unfolding en' st s1 using length_dropWhile_le[of isWhiteSpace cs] by simp
    have m: "matched start end \<noteq> []" using l2 st s1 by (auto simp: matched_def)
    have pre: "take (length s - length (snd start)) s = takeWhile (\<lambda>c. \<not> isWhiteSpace c) s"
    proof -
      have "s = takeWhile (\<lambda>c. \<not> isWhiteSpace c) s @ snd start" unfolding st by simp
      then have "length s - length (snd start) = length (takeWhile (\<lambda>c. \<not> isWhiteSpace c) s)"
        by (metis add_diff_cancel_right' length_append)
      then show ?thesis
        by (metis \<open>s = takeWhile (\<lambda>c. \<not> isWhiteSpace c) s @ snd start\<close> append_eq_conv_conj)
    qed
    obtain b' where e: "end = (b', dropWhile isWhiteSpace cs)" using en' by (cases "end") simp
    have ls: "length (dropWhile isWhiteSpace cs) < length s" using l1 l2 en' by simp
    have "replaceFrom (length s) (Plus (Atom Space)) False '' '' end
          = replaceFrom (Suc (length (dropWhile isWhiteSpace cs))) (Plus (Atom Space)) False '' '' end"
      using replaceFrom_fuel[of "end" "length s"] ls e by simp
    also have "\<dots> = collapseWhiteSpace (dropWhile isWhiteSpace cs)"
      unfolding e by (rule less.hyps[OF ls])
    finally have rec: "replaceFrom (length s) (Plus (Atom Space)) False '' '' end
          = collapseWhiteSpace (dropWhile isWhiteSpace cs)" .
    have "replaceFrom (Suc (length s)) (Plus (Atom Space)) False '' '' (b, s)
          = takeWhile (\<lambda>c. \<not> isWhiteSpace c) s @ '' '' @ collapseWhiteSpace (dropWhile isWhiteSpace cs)"
      using ex m pre rec by (simp del: ends.simps)
    also have "\<dots> = collapseWhiteSpace s"
      using collapse_skip[of s] s1 c by simp
    finally show ?thesis .
  qed
qed

lemma cleanText_normalized: "cleanText t = normalizedText t"
  by (simp only: cleanText_def normalizedText_def replaceAll_def replace_white_space)

lemma normalizedText_example:
  "normalizedText [CHR '' '', CHR ''J'', CHR ''o'', CHR 0x09, CHR 0x0A, CHR ''D'', CHR '' ''] = ''Jo D''"
  by code_simp

text \<open>
  Claim C5. When the normalized form of the text, every run of white space collapsed to one
  space and the result trimmed, is shorter than 50, \<^const>\<open>predictFromText\<close> fails with the
  error of the short text, wrapped by its \<^verbatim>\<open>catch\<close>, and the history is the one it was
  given: no request was issued.
\<close>

theorem predictFromText_too_short:
  assumes "length (normalizedText t) < 50"
  shows "predictFromText net t hist =
     (Inl (Error ''Text prediction failed: Please provide at least 50 characters of resume text.''),
      hist)"
  using assms
  by (simp add: predictFromText_def predictionFailed_def Let_def cleanText_normalized)

theorem predictFromText_too_short_witness:
  "predictFromText (\<lambda>h r. Responded 200 (Inr JNull))
     [CHR '' '', CHR ''J'', CHR ''o'', CHR 0x09, CHR 0x0A, CHR ''D'', CHR '' ''] [] =
     (Inl (Error ''Text prediction failed: Please provide at least 50 characters of resume text.''),
      [])"
  by (rule predictFromText_too_short) (simp add: normalizedText_example)

subsection \<open>The lists of the report\<close>

lemma set_uniqueFrom: "set (uniqueFrom seen xs) = set xs - set seen"
  by (induction xs arbitrary: seen) auto

lemma distinct_uniqueFrom: "distinct (uniqueFrom seen xs)"
  by (induction xs arbitrary: seen) (auto simp: set_uniqueFrom)

lemma distinct_newSet: "distinct (newSet xs)"
  by (simp add: newSet_def distinct_uniqueFrom)

lemma set_newSet: "set (newSet xs) = set xs"
  by (simp add: newSet_def set_uniqueFrom)

lemma findBySuggestion_defined:
  assumes "s \<in> set (map suggestion imps)"
  shows "\<exists>i. findBySuggestion imps s = Some i \<and> suggestion i = s \<and> i \<in> set imps"
proof -
  from assms obtain i where "findBySuggestion imps s = Some i"
    unfolding findBySuggestion_def by (cases "find (\<lambda>i. suggestion i = s) imps") (auto simp: find_None_iff)
  then show ?thesis
    unfolding findBySuggestion_def by (auto simp: find_Some_iff)
qed

lemma suggestion_of_found:
  assumes "set ss \<subseteq> set (map suggestion imps)"
  shows "map suggestion (map (\<lambda>s. the (findBySuggestion imps s)) ss) = ss"
proof -
  have "suggestion (the (findBySuggestion imps s)) = s" if "s \<in> set ss" for s
  proof -
    from that assms have "s \<in> set (map suggestion imps)" by blast
    from findBySuggestion_defined[OF this] show ?thesis by auto
  qed
  then show ?thesis by (simp add: map_idI)
qed

lemma if_snoc: "(if c then xs @ [x] else xs) = xs @ (if c then [x] else [])"
  by simp

lemma case_snoc:
  "(case m of None \<Rightarrow> xs | Some found \<Rightarrow> xs @ f found) =
     xs @ (case m of None \<Rightarrow> [] | Some found \<Rightarrow> f found)"
  by (simp split: option.split)

lemma strengths_from_candidates:
  "generateContextualStrengths t skills nlpResults role =
     take 4 (filter (\<lambda>s. s \<noteq> [] \<and> length s > 15) (newSet (strengthCandidates t skills nlpResults role)))"
  unfolding generateContextualStrengths_def strengthCandidates_def Let_def if_snoc case_snoc
  by (simp only: append_assoc append_Nil)

lemma improvements_from_candidates:
  "generateTargetedImprovements resumeText role skills nlpResults =
     take 5 (map (\<lambda>s. the (findBySuggestion (improvementCandidates resumeText role skills nlpResults) s))
               (newSet (map suggestion (improvementCandidates resumeText role skills nlpResults))))"
  unfolding generateTargetedImprovements_def improvementCandidates_def Let_def if_snoc
  by (simp only: append_assoc)

lemma missing_from_candidates:
  "identifyMissingElements t role skills = take 4 (newSet (missingCandidates t role skills))"
  unfolding identifyMissingElements_def missingCandidates_def Let_def if_snoc
  by (simp only: append_assoc)

lemma advice_from_candidates:
  "generateRoleSpecificAdvice t role skills experienceLevel =
     take 3 (newSet (adviceCandidates t role skills experienceLevel))"
  unfolding generateRoleSpecificAdvice_def adviceCandidates_def Let_def if_snoc
  by (simp only: append_assoc)

lemma insights_from_candidates:
  "generateContextualInsights nlpResults role skills resumeText =
     take 3 (newSet (insightCandidates nlpResults role skills resumeText))"
  unfolding generateContextualInsights_def insightCandidates_def Let_def if_snoc
  by (simp only: append_assoc append_Nil)

lemma suggestions_deduplicated:
  "map suggestion (take n (map (\<lambda>s. the (findBySuggestion imps s)) (newSet (map suggestion imps))))
     = take n (newSet (map suggestion imps))"
proof -
  have "map suggestion (map (\<lambda>s. the (findBySuggestion imps s)) (newSet (map suggestion imps)))
        = newSet (map suggestion imps)"
    by (rule suggestion_of_found) (simp add: set_newSet)
  then show ?thesis by (simp only: take_map[symmetric])
qed

lemma distinct_capped: "distinct (take n (filter P (newSet raw)))"
  by (simp only: distinct_take distinct_filter distinct_newSet)

lemma distinct_capped_plain: "distinct (take n (newSet raw))"
  by (simp only: distinct_take distinct_newSet)

lemma analyzeResumeContextually_report:
  "fst (analyzeResumeContextually net resumeText predictedRole hist) =
     Inr (buildReport (fst (performNLPAnalysis net resumeText predictedRole hist)) resumeText predictedRole)"
  by (simp add: analyzeResumeContextually_def split_beta)

lemma buildReport_fields:
  "strengths (buildReport nlpResults resumeText role) =
     generateContextualStrengths (toLowerCase resumeText)
       (newSet (skills_nlp nlpResults @ findSkillsInText (toLowerCase resumeText) (getRoleSpecificSkills role)))
       nlpResults role"
  "improvements (buildReport nlpResults resumeText role) =
     generateTargetedImprovements resumeText role
       (newSet (skills_nlp nlpResults @ findSkillsInText (toLowerCase resumeText) (getRoleSpecificSkills role)))
       nlpResults"
  "missing_elements (buildReport nlpResults resumeText role) =
     identifyMissingElements (toLowerCase resumeText) role
       (newSet (skills_nlp nlpResults @ findSkillsInText (toLowerCase resumeText) (getRoleSpecificSkills role)))"
  "role_specific_advice (buildReport nlpResults resumeText role) =
     generateRoleSpecificAdvice (toLowerCase resumeText) role
       (newSet (skills_nlp nlpResults @ findSkillsInText (toLowerCase resumeText) (getRoleSpecificSkills role)))
       (experience_level nlpResults)"
  "contextual_insights (buildReport nlpResults resumeText role) =
     generateContextualInsights nlpResults role
       (newSet (skills_nlp nlpResults @ findSkillsInText (toLowerCase resumeText) (getRoleSpecificSkills role)))
       resumeText"
  unfolding buildReport_def Let_def by (simp_all only: AIAnalysisResponse.simps)

text \<open>
  Claim C8. The report of \<^const>\<open>analyzeResumeContextually\<close> has no entry twice in any of its
  lists, the improvements having pairwise different suggestion texts, and holds at most 4
  strengths, 5 improvements, 4 missing elements, 3 pieces of advice and 3 insights. Each
  list is the list of its candidates, deduplicated first and truncated after that; the
  strengths are filtered by length in between. The order shows where a candidate occurs
  twice among the first four: of the five candidates of the last conjunct four are left.
\<close>

theorem report_lists_deduplicated_and_capped:
  "(let nlpResults = fst (performNLPAnalysis net resumeText predictedRole hist);
        t = toLowerCase resumeText;
        detected = newSet (skills_nlp nlpResults @
                     findSkillsInText t (getRoleSpecificSkills predictedRole));
        report = buildReport nlpResults resumeText predictedRole
    in fst (analyzeResumeContextually net resumeText predictedRole hist) = Inr report
     \<and> distinct (strengths report) \<and> length (strengths report) \<le> 4
     \<and> distinct (map suggestion (improvements report)) \<and> distinct (improvements report)
     \<and> length (improvements report) \<le> 5
     \<and> distinct (missing_elements report) \<and> length (missing_elements report) \<le> 4
     \<and> distinct (role_specific_advice report) \<and> length (role_specific_advice report) \<le> 3
     \<and> distinct (contextual_insights report) \<and> length (contextual_insights report) \<le> 3
     \<and> strengths report =
         take 4 (filter (\<lambda>s. s \<noteq> [] \<and> length s > 15)
                   (newSet (strengthCandidates t detected nlpResults predictedRole)))
     \<and> improvements report =
         take 5 (map (\<lambda>s. the (findBySuggestion
                                 (improvementCandidates resumeText predictedRole detected nlpResults) s))
                   (newSet (map suggestion
                              (improvementCandidates resumeText predictedRole detected nlpResults))))
     \<and> map suggestion (improvements report) =
         take 5 (newSet (map suggestion
                           (improvementCandidates resumeText predictedRole detected nlpResults)))
     \<and> missing_elements report = take 4 (newSet (missingCandidates t predictedRole detected))
     \<and> role_specific_advice report =
         take 3 (newSet (adviceCandidates t predictedRole detected (experience_level nlpResults)))
     \<and> contextual_insights report =
         take 3 (newSet (insightCandidates nlpResults predictedRole detected resumeText)))
   \<and> strengthCandidates ''5%'' [''git'']
        \<lparr>skills_nlp = [], experience_level = ''Mid-level'',
         strengths_nlp = [''strong in Java and Python'', ''strong in Java and Python''],
         suggestions = []\<rparr> ''Developer'' =
       [''strong in Java and Python'', ''strong in Java and Python'',
        ''Demonstrated expertise in key areas like git.'',
        ''Profile aligns with an Mid-level professional.'',
        ''Strong track record of delivering measurable achievements and results.'']
   \<and> generateContextualStrengths ''5%'' [''git'']
        \<lparr>skills_nlp = [], experience_level = ''Mid-level'',
         strengths_nlp = [''strong in Java and Python'', ''strong in Java and Python''],
         suggestions = []\<rparr> ''Developer'' =
       [''strong in Java and Python'',
        ''Demonstrated expertise in key areas like git.'',
        ''Profile aligns with an Mid-level professional.'',
        ''Strong track record of delivering measurable achievements and results.'']"
proof (intro conjI)
  define nlp where "nlp = fst (performNLPAnalysis net resumeText predictedRole hist)"
  define t where "t = toLowerCase resumeText"
  define detected where "detected = newSet (skills_nlp nlp @
      findSkillsInText t (getRoleSpecificSkills predictedRole))"
  define report where "report = buildReport nlp resumeText predictedRole"
  define cands where "cands = improvementCandidates resumeText predictedRole detected nlp"
  have r: "fst (analyzeResumeContextually net resumeText predictedRole hist) = Inr report"
    unfolding report_def nlp_def by (rule analyzeResumeContextually_report)
  have s1: "strengths report =
      take 4 (filter (\<lambda>s. s \<noteq> [] \<and> length s > 15)
                (newSet (strengthCandidates t detected nlp predictedRole)))"
    unfolding report_def buildReport_fields detected_def t_def by (rule strengths_from_candidates)
  have s2: "improvements report =
      take 5 (map (\<lambda>s. the (findBySuggestion cands s)) (newSet (map suggestion cands)))"
    unfolding report_def buildReport_fields detected_def t_def cands_def
    by (rule improvements_from_candidates)
  have s3: "missing_elements report = take 4 (newSet (missingCandidates t predictedRole detected))"
    unfolding report_def buildReport_fields detected_def t_def by (rule missing_from_candidates)
  have s4: "role_specific_advice report =
      take 3 (newSet (adviceCandidates t predictedRole detected (experience_level nlp)))"
    unfolding report_def buildReport_fields detected_def t_def by (rule advice_from_candidates)
  have s5: "contextual_insights report =
      take 3 (newSet (insightCandidates nlp predictedRole detected resumeText))"
    unfolding report_def buildReport_fields detected_def t_def by (rule insights_from_candidates)
  have m2: "map suggestion (improvements report) = take 5 (newSet (map suggestion cands))"
    unfolding s2 by (rule suggestions_deduplicated)
  have d2: "distinct (map suggestion (improvements report))"
    unfolding m2 by (rule distinct_capped_plain)
  have "distinct (strengths report)" unfolding s1 by (rule distinct_capped)
  moreover have "length (strengths report) \<le> 4" unfolding s1 by simp
  moreover note d2
  moreover have "distinct (improvements report)" using d2 by (simp add: distinct_map)
  moreover have "length (improvements report) \<le> 5" unfolding s2 by simp
  moreover have "distinct (missing_elements report)" unfolding s3 by (rule distinct_capped_plain)
  moreover have "length (missing_elements report) \<le> 4" unfolding s3 by simp
  moreover have "distinct (role_specific_advice report)" unfolding s4 by (rule distinct_capped_plain)
  moreover have "length (role_specific_advice report) \<le> 3" unfolding s4 by simp
  moreover have "distinct (contextual_insights report)" unfolding s5 by (rule distinct_capped_plain)
  moreover have "length (contextual_insights report) \<le> 3" unfolding s5 by simp
  ultimately have "fst (analyzeResumeContextually net resumeText predictedRole hist) = Inr report
     \<and> distinct (strengths report) \<and> length (strengths report) \<le> 4
     \<and> distinct (map suggestion (improvements report)) \<and> distinct (improvements report)
     \<and> length (improvements report) \<le> 5
     \<and> distinct (missing_elements report) \<and> length (missing_elements report) \<le> 4
     \<and> distinct (role_specific_advice report) \<and> length (role_specific_advice report) \<le> 3
     \<and> distinct (contextual_insights report) \<and> length (contextual_insights report) \<le> 3
     \<and> strengths report =
         take 4 (filter (\<lambda>s. s \<noteq> [] \<and> length s > 15)
                   (newSet (strengthCandidates t detected nlp predictedRole)))
     \<and> improvements report =
         take 5 (map (\<lambda>s. the (findBySuggestion cands s)) (newSet (map suggestion cands)))
     \<and> map suggestion (improvements report) = take 5 (newSet (map suggestion cands))
     \<and> missing_elements report = take 4 (newSet (missingCandidates t predictedRole detected))
     \<and> role_specific_advice report =
         take 3 (newSet (adviceCandidates t predictedRole detected (experience_level nlp)))
     \<and> contextual_insights report =
         take 3 (newSet (insightCandidates nlp predictedRole detected resumeText))"
    using r s1 s2 s3 s4 s5 m2 by blast
  then show "(let nlpResults = fst (performNLPAnalysis net resumeText predictedRole hist);
        t = toLowerCase resumeText;
        detected = newSet (skills_nlp nlpResults @
                     findSkillsInText t (getRoleSpecificSkills predictedRole));
        report = buildReport nlpResults resumeText predictedRole
    in fst (analyzeResumeContextually net resumeText predictedRole hist) = Inr report
     \<and> distinct (strengths report) \<and> length (strengths report) \<le> 4
     \<and> distinct (map suggestion (improvements report)) \<and> distinct (improvements report)
     \<and> length (improvements report) \<le> 5
     \<and> distinct (missing_elements report) \<and> length (missing_elements report) \<le> 4
     \<and> distinct (role_specific_advice report) \<and> length (role_specific_advice report) \<le> 3
     \<and> distinct (contextual_insights report) \<and> length (contextual_insights report) \<le> 3
     \<and> strengths report =
         take 4 (filter (\<lambda>s. s \<noteq> [] \<and> length s > 15)
                   (newSet (strengthCandidates t detected nlpResults predictedRole)))
     \<and> improvements report =
         take 5 (map (\<lambda>s. the (findBySuggestion
                                 (improvementCandidates resumeText predictedRole detected nlpResults) s))
                   (newSet (map suggestion
                              (improvementCandidates resumeText predictedRole detected nlpResults))))
     \<and> map suggestion (improvements report) =
         take 5 (newSet (map suggestion
                           (improvementCandidates resumeText predictedRole detected nlpResults)))
     \<and> missing_elements report = take 4 (newSet (missingCandidates t predictedRole detected))
     \<and> role_specific_advice report =
         take 3 (newSet (adviceCandidates t predictedRole detected (experience_level nlpResults)))
     \<and> contextual_insights report =
         take 3 (newSet (insightCandidates nlpResults predictedRole detected resumeText)))"
    unfolding Let_def nlp_def t_def detected_def report_def cands_def .
  show "strengthCandidates ''5%'' [''git'']
        \<lparr>skills_nlp = [], experience_level = ''Mid-level'',
         strengths_nlp = [''strong in Java and Python'', ''strong in Java and Python''],
         suggestions = []\<rparr> ''Developer'' =
       [''strong in Java and Python'', ''strong in Java and Python'',
        ''Demonstrated expertise in key areas like git.'',
        ''Profile aligns with an Mid-level professional.'',
        ''Strong track record of delivering measurable achievements and results.'']"
    by code_simp
  show "generateContextualStrengths ''5%'' [''git'']
        \<lparr>skills_nlp = [], experience_level = ''Mid-level'',
         strengths_nlp = [''strong in Java and Python'', ''strong in Java and Python''],
         suggestions = []\<rparr> ''Developer'' =
       [''strong in Java and Python'',
        ''Demonstrated expertise in key areas like git.'',
        ''Profile aligns with an Mid-level professional.'',
        ''Strong track record of delivering measurable achievements and results.'']"
    by code_simp
qed

subsection \<open>The analysis when the inference client returns nothing\<close>












end
